theory Spec2Isabelle
  imports Main "HOL-Library.AList"
begin

section \<open>JSON values and JavaScript string conversions\<close>

text \<open>
  A JavaScript string is modelled as a \<^typ>\<open>string\<close>; one \<^typ>\<open>char\<close> stands for one
  code unit, so \<^const>\<open>length\<close> is the \<^verbatim>\<open>.length\<close> of the source and \<^const>\<open>take\<close> is
  \<^verbatim>\<open>substring(0, n)\<close>. JSON numbers are restricted to integers.
\<close>

datatype json =
    JNull
  | JBool bool
  | JNum int
  | JStr string
  | JArr "json list"
  | JObj "(string \<times> json) list"

definition digit :: "nat \<Rightarrow> char" where
  "digit d = ''0123456789'' ! d"

function decimal :: "nat \<Rightarrow> string" where
  "decimal n = (if n < 10 then [digit n] else decimal (n div 10) @ [digit (n mod 10)])"
  by pat_completeness auto
termination
  by (relation "measure (\<lambda>n. n)") auto

declare decimal.simps [simp del]

fun join_comma :: "string list \<Rightarrow> string" where
  "join_comma [] = []"
| "join_comma [s] = s"
| "join_comma (s # t # ss) = s @ '','' @ join_comma (t # ss)"

text \<open>\<^verbatim>\<open>String(v)\<close>, as used by \<^verbatim>\<open>enum.map(String)\<close>.\<close>

fun js_String :: "json \<Rightarrow> string" where
  "js_String JNull = ''null''"
| "js_String (JBool b) = (if b then ''true'' else ''false'')"
| "js_String (JNum i) = (if i < 0 then ''-'' @ decimal (nat (- i)) else decimal (nat i))"
| "js_String (JStr s) = s"
| "js_String (JArr vs) =
     join_comma (map (\<lambda>v. if v = JNull then [] else js_String v) vs)"
| "js_String (JObj kvs) = ''[object Object]''"

section \<open>Data model of \<^verbatim>\<open>mcpToolRegistry.ts\<close>\<close>

text \<open>
  The \<^verbatim>\<open>type\<close> member of an object schema: a single name, \<^verbatim>\<open>null\<close>, or an array of
  those. An absent member (\<^verbatim>\<open>undefined\<close>) is \<^const>\<open>None\<close> at the use site.
\<close>

datatype mcp_type =
    TypeName string
  | TypeNull
  | TypeArray "mcp_type list"

text \<open>
  \<^verbatim>\<open>McpJsonSchema\<close>: a boolean schema or an object schema with the members the translator
  reads (\<^verbatim>\<open>type\<close>, \<^verbatim>\<open>description\<close>, \<^verbatim>\<open>enum\<close>, \<^verbatim>\<open>properties\<close>, \<^verbatim>\<open>items\<close>,
  \<^verbatim>\<open>required\<close>). A \<^verbatim>\<open>Record<string, ...>\<close> is an association list in key order.
  \<^verbatim>\<open>items\<close> is one schema or an array of schemas (tuple typing).
\<close>

datatype mcp_schema =
    BoolSchema bool
  | ObjSchema
      (s_type: "mcp_type option")
      (s_description: "string option")
      (s_enum: "json list option")
      (s_properties: "(string \<times> mcp_schema) list option")
      (s_items: "mcp_items option")
      (s_required: "string list option")
and mcp_items =
    ItemSchema mcp_schema
  | ItemTuple "mcp_schema list"

datatype schema_type = STRING | NUMBER | INTEGER | BOOLEAN | ARRAY | OBJECT

text \<open>The target \<^verbatim>\<open>Schema\<close>; every member other than \<^verbatim>\<open>type\<close> may be unset.\<close>

datatype gemini_schema =
  GSchema
    (g_type: schema_type)
    (g_description: "string option")
    (g_enum: "string list option")
    (g_items: "gemini_schema option")
    (g_properties: "(string \<times> gemini_schema) list option")
    (g_required: "string list option")

fun set_enum :: "string list \<Rightarrow> gemini_schema \<Rightarrow> gemini_schema" where
  "set_enum v (GSchema t d e i p r) = GSchema t d (Some v) i p r"

fun set_items :: "gemini_schema \<Rightarrow> gemini_schema \<Rightarrow> gemini_schema" where
  "set_items v (GSchema t d e i p r) = GSchema t d e (Some v) p r"

fun set_properties :: "(string \<times> gemini_schema) list \<Rightarrow> gemini_schema \<Rightarrow> gemini_schema" where
  "set_properties v (GSchema t d e i p r) = GSchema t d e i (Some v) r"

fun set_required :: "string list \<Rightarrow> gemini_schema \<Rightarrow> gemini_schema" where
  "set_required v (GSchema t d e i p r) = GSchema t d e i p (Some v)"

text \<open>\<^verbatim>\<open>McpToolSchema\<close>, with \<^verbatim>\<open>annotations?.title\<close> flattened into one optional member.\<close>

record mcp_tool =
  tool_name :: string
  tool_description :: "string option"
  inputSchema :: "mcp_schema option"
  annotations_title :: "string option"

record function_declaration =
  fd_name :: string
  fd_description :: string
  fd_parameters :: gemini_schema

record tool_mapping =
  geminiFunctionDeclaration :: function_declaration
  mcpServerName :: string
  mcpServerUrl :: string
  mcpToolName :: string

record server_config =
  cfg_name :: string
  cfg_url :: string

section \<open>Schema translation\<close>

text \<open>JavaScript truthiness of a value found in a \<^verbatim>\<open>type\<close> array.\<close>

fun truthy_type :: "mcp_type \<Rightarrow> bool" where
  "truthy_type (TypeName s) = (s \<noteq> [])"
| "truthy_type TypeNull = False"
| "truthy_type (TypeArray ts) = True"

function mcpSchemaTypeToGeminiSchemaType :: "mcp_type option \<Rightarrow> schema_type option" where
  "mcpSchemaTypeToGeminiSchemaType (Some (TypeArray ts)) =
     (case find (\<lambda>t. t \<noteq> TypeNull) ts of
        None \<Rightarrow> None
      | Some nonNullType \<Rightarrow>
          if truthy_type nonNullType then mcpSchemaTypeToGeminiSchemaType (Some nonNullType)
          else None)"
| "mcpSchemaTypeToGeminiSchemaType (Some (TypeName s)) =
     (if s = ''string'' then Some STRING
      else if s = ''number'' then Some NUMBER
      else if s = ''integer'' then Some INTEGER
      else if s = ''boolean'' then Some BOOLEAN
      else if s = ''array'' then Some ARRAY
      else if s = ''object'' then Some OBJECT
      else if s = ''null'' then None
      else None)"
| "mcpSchemaTypeToGeminiSchemaType (Some TypeNull) = None"
| "mcpSchemaTypeToGeminiSchemaType None = None"
  by pat_completeness auto
termination
proof (relation "measure (\<lambda>t. size_option size t)")
  show "wf (measure (\<lambda>t. size_option size t))"
    by simp
next
  fix ts :: "mcp_type list" and nonNullType
  assume "find (\<lambda>t. t \<noteq> TypeNull) ts = Some nonNullType"
  then have "nonNullType \<in> set ts"
    by (auto simp: find_Some_iff)
  then have "size nonNullType \<le> size_list size ts"
    by (simp add: size_list_estimation')
  then show "(Some nonNullType, Some (TypeArray ts)) \<in> measure (\<lambda>t. size_option size t)"
    by simp
qed

text \<open>\<^verbatim>\<open>mcpPropSchema.description || `Parameter ${key}`\<close>: the empty string is falsy.\<close>

definition description_or :: "string option \<Rightarrow> string \<Rightarrow> string" where
  "description_or d dflt = (case d of None \<Rightarrow> dflt | Some s \<Rightarrow> if s = [] then dflt else s)"

text \<open>Truthiness of \<^verbatim>\<open>mcpPropSchema.items\<close>: only an absent member and \<^verbatim>\<open>false\<close> are falsy.\<close>

fun items_truthy :: "mcp_items option \<Rightarrow> bool" where
  "items_truthy None = False"
| "items_truthy (Some (ItemSchema (BoolSchema b))) = b"
| "items_truthy (Some (ItemSchema (ObjSchema ty d e props items req))) = True"
| "items_truthy (Some (ItemTuple ts)) = True"

text \<open>\<^verbatim>\<open>typeof s === 'object'\<close> for a schema value.\<close>

fun is_object :: "mcp_schema \<Rightarrow> bool" where
  "is_object (BoolSchema b) = False"
| "is_object (ObjSchema ty d e props items req) = True"

abbreviation props_size :: "(string \<times> mcp_schema) list \<Rightarrow> nat" where
  "props_size \<equiv> size_list (size_prod (\<lambda>_. 0) size)"

text \<open>
  \<^verbatim>\<open>translateMcpPropertiesToGeminiProperties\<close> and \<^verbatim>\<open>translateMcpSchemaToGeminiSchema\<close>
  call each other. The \<^verbatim>\<open>for (const key in mcpProperties)\<close> loop is
  \<open>translateProperties_loop\<close>, whose accumulator is the object \<^verbatim>\<open>geminiProperties\<close>
  (\<^verbatim>\<open>geminiProperties[key] = geminiProp\<close> is \<^const>\<open>AList.update\<close>); the loop body is
  \<open>translateProperty\<close>, where \<^const>\<open>None\<close> is \<^verbatim>\<open>continue\<close>. Console output is left out.
\<close>

function (sequential)
    translateMcpPropertiesToGeminiProperties ::
      "(string \<times> mcp_schema) list option \<Rightarrow> (string \<times> gemini_schema) list option"
and translateProperties_loop ::
      "(string \<times> mcp_schema) list \<Rightarrow> (string \<times> gemini_schema) list
         \<Rightarrow> (string \<times> gemini_schema) list"
and translateProperty :: "string \<Rightarrow> mcp_schema \<Rightarrow> gemini_schema option"
and translateMcpSchemaToGeminiSchema :: "mcp_schema \<Rightarrow> gemini_schema option"
where
  "translateMcpPropertiesToGeminiProperties None = None"
| "translateMcpPropertiesToGeminiProperties (Some mcpProperties) =
     Some (translateProperties_loop mcpProperties [])"
| "translateProperties_loop [] geminiProperties = geminiProperties"
| "translateProperties_loop ((key, mcpPropSchema) # rest) geminiProperties =
     (case translateProperty key mcpPropSchema of
        None \<Rightarrow> translateProperties_loop rest geminiProperties
      | Some geminiProp \<Rightarrow>
          translateProperties_loop rest (AList.update key geminiProp geminiProperties))"
| "translateProperty key (BoolSchema b) = None"
| "translateProperty key (ObjSchema ty d e props items req) =
     (case mcpSchemaTypeToGeminiSchemaType ty of
        None \<Rightarrow> None
      | Some geminiType \<Rightarrow>
          (let geminiProp0 =
                 GSchema geminiType (Some (description_or d (''Parameter '' @ key)))
                   None None None None;
               geminiProp1 =
                 (case e of
                    None \<Rightarrow> geminiProp0
                  | Some vs \<Rightarrow>
                      if geminiType = STRING then set_enum (map js_String vs) geminiProp0
                      else geminiProp0)
           in if geminiType = ARRAY \<and> items_truthy items then
                (case items of
                   Some (ItemSchema it) \<Rightarrow>
                     if is_object it then
                       (case translateMcpSchemaToGeminiSchema it of
                          None \<Rightarrow> Some geminiProp1
                        | Some itemSchema \<Rightarrow> Some (set_items itemSchema geminiProp1))
                     else Some geminiProp1
                 | _ \<Rightarrow> Some geminiProp1)
              else if geminiType = OBJECT \<and> props \<noteq> None then
                (let geminiProp2 =
                       (case translateMcpPropertiesToGeminiProperties props of
                          None \<Rightarrow> geminiProp1
                        | Some nestedProperties \<Rightarrow> set_properties nestedProperties geminiProp1)
                 in case req of
                      None \<Rightarrow> Some geminiProp2
                    | Some r \<Rightarrow> Some (set_required r geminiProp2))
              else Some geminiProp1))"
| "translateMcpSchemaToGeminiSchema (BoolSchema b) = None"
| "translateMcpSchemaToGeminiSchema (ObjSchema ty d e props items req) =
     (if ty \<noteq> Some (TypeName ''object'') then
        Some (GSchema OBJECT None None None (Some []) (Some []))
      else
        Some (GSchema OBJECT None None None
               (Some (case translateMcpPropertiesToGeminiProperties props of
                        None \<Rightarrow> []
                      | Some geminiProperties \<Rightarrow> geminiProperties))
               (Some (case req of None \<Rightarrow> [] | Some r \<Rightarrow> r))))"
  by pat_completeness auto
termination
  by (relation "measure (\<lambda>x. case x of
          Inl (Inl props) \<Rightarrow> size_option props_size props
        | Inl (Inr (ps, acc)) \<Rightarrow> props_size ps
        | Inr (Inl (key, sch)) \<Rightarrow> size sch
        | Inr (Inr sch) \<Rightarrow> size sch)") auto

section \<open>From a remote tool to a function declaration\<close>

definition identifier_char :: "char \<Rightarrow> bool" where
  "identifier_char c \<longleftrightarrow>
     c \<in> set ''abcdefghijklmnopqrstuvwxyzABCDEFGHIJKLMNOPQRSTUVWXYZ0123456789_''"

text \<open>\<^verbatim>\<open>s.replace(/[^a-zA-Z0-9_]/g, '_')\<close>\<close>

definition sanitize :: "string \<Rightarrow> string" where
  "sanitize s = map (\<lambda>c. if identifier_char c then c else CHR ''_'') s"

text \<open>Lines 134 to 139 of \<^verbatim>\<open>mcpToolToGeminiFunction\<close>.\<close>

definition geminiFunctionName :: "string \<Rightarrow> string \<Rightarrow> string" where
  "geminiFunctionName serverName toolName =
     (let sanitizedServerName = sanitize serverName;
          sanitizedMcpToolName = sanitize toolName;
          name = sanitizedServerName @ ''_'' @ sanitizedMcpToolName
      in if length name > 63 then take 63 name else name)"

definition mcpToolToGeminiFunction :: "mcp_tool \<Rightarrow> string \<Rightarrow> function_declaration option" where
  "mcpToolToGeminiFunction mcpTool serverName =
     (case inputSchema mcpTool of
        None \<Rightarrow> None
      | Some (BoolSchema b) \<Rightarrow> None
      | Some (ObjSchema ty d e props items req) \<Rightarrow>
          if ty \<noteq> Some (TypeName ''object'') then None
          else
            (case translateMcpSchemaToGeminiSchema (ObjSchema ty d e props items req) of
               None \<Rightarrow> None
             | Some geminiParameters \<Rightarrow>
                 Some \<lparr> fd_name = geminiFunctionName serverName (tool_name mcpTool),
                        fd_description =
                          description_or (tool_description mcpTool)
                            (''Calls '' @ tool_name mcpTool @ '' on MCP server '' @ serverName
                               @ ''. '' @ description_or (annotations_title mcpTool) []),
                        fd_parameters = geminiParameters \<rparr>))"

section \<open>The outside world\<close>

text \<open>
  Everything the program cannot decide by itself is a parameter: whether \<^verbatim>\<open>new URL(s)\<close>
  accepts a string, what the SDK client and the chat session answer, and the clock. Each
  answer may depend on the whole history of earlier interactions. A rejected promise or
  a thrown value is an \<open>Error\<close> object with a message.
\<close>

datatype js_error = Error string | TypeError string

fun message :: "js_error \<Rightarrow> string" where
  "message (Error m) = m"
| "message (TypeError m) = m"

datatype content_part = TextContent string | OtherContent json

text \<open>\<^verbatim>\<open>CallToolResponse\<close>\<close>

record call_tool_response =
  toolCallId :: "string option"
  isError :: "bool option"
  content :: "content_part list"

record function_call =
  call_name :: string
  call_args :: json

text \<open>The \<^verbatim>\<open>response\<close> member of a function response: a tool result or \<^verbatim>\<open>{ error: ... }\<close>.\<close>

datatype response_payload = ToolResult call_tool_response | ErrorObject string

datatype part =
    TextPart string
  | InlineDataPart string string
  | FunctionResponsePart string response_payload

datatype chat_message = TextMessage string | PartsMessage "part list"

record generate_content_response =
  response_functionCalls :: "function_call list option"
  response_text :: "string option"

datatype send_result = SendThrows js_error | SendOk "generate_content_response option"

datatype event =
    ConnectEvent string
  | CloseEvent string
  | ListToolsEvent string
  | CallToolEvent string string json
  | SendMessageEvent chat_message

text \<open>
  The members of a world, each a function of the history \<open>h\<close> so far:
  \<^item> \<open>valid_url s\<close>: \<^verbatim>\<open>new URL(s)\<close> does not throw;
  \<^item> \<open>client_connect h url\<close> and \<open>client_close h url\<close>: \<^const>\<open>None\<close> when the SDK call
    resolves, the error when it rejects;
  \<^item> \<open>client_listTools h url\<close>: the error, or the \<^verbatim>\<open>tools\<close> member of the response
    (\<^const>\<open>None\<close> when the member is missing);
  \<^item> \<open>client_callTool h url name args\<close>: the error, or the tool's result;
  \<^item> \<open>date_now h\<close>: \<^verbatim>\<open>Date.now()\<close>;
  \<^item> \<open>chat_sendMessage h m\<close>: the error, or \<^verbatim>\<open>result.response\<close> (\<^const>\<open>None\<close> when it is
    missing) with what its \<^verbatim>\<open>functionCalls()\<close> and \<^verbatim>\<open>text()\<close> return.
\<close>

record world =
  valid_url :: "string \<Rightarrow> bool"
  client_connect :: "event list \<Rightarrow> string \<Rightarrow> js_error option"
  client_close :: "event list \<Rightarrow> string \<Rightarrow> js_error option"
  client_listTools :: "event list \<Rightarrow> string \<Rightarrow> js_error + mcp_tool list option"
  client_callTool :: "event list \<Rightarrow> string \<Rightarrow> string \<Rightarrow> json \<Rightarrow> js_error + call_tool_response"
  date_now :: "event list \<Rightarrow> nat"
  chat_sendMessage :: "event list \<Rightarrow> chat_message \<Rightarrow> send_result"

text \<open>
  The state of the process: the module variable \<^verbatim>\<open>currentSessionTools\<close> and the history of
  interactions with the outside.
\<close>

record state =
  currentSessionTools :: "tool_mapping list"
  history :: "event list"

definition emit :: "event \<Rightarrow> state \<Rightarrow> state" where
  "emit e st = st\<lparr> history := history st @ [e] \<rparr>"

section \<open>\<^verbatim>\<open>GenericMcpClient\<close>\<close>

record generic_mcp_client =
  serverUrl :: string
  connected :: bool

text \<open>The constructor: \<^verbatim>\<open>new URL(serverUrlString)\<close> throws on a string that is no URL.\<close>

definition new_GenericMcpClient :: "world \<Rightarrow> string \<Rightarrow> js_error + generic_mcp_client" where
  "new_GenericMcpClient w serverUrlString =
     (if valid_url w serverUrlString
      then Inr \<lparr> serverUrl = serverUrlString, connected = False \<rparr>
      else Inl (TypeError ''Invalid URL''))"

definition connect ::
  "world \<Rightarrow> generic_mcp_client \<Rightarrow> state \<Rightarrow> (js_error + unit) \<times> generic_mcp_client \<times> state" where
  "connect w this st =
     (if connected this then (Inr (), this, st)
      else
        (case client_connect w (history st) (serverUrl this) of
           None \<Rightarrow>
             (Inr (), this\<lparr> connected := True \<rparr>, emit (ConnectEvent (serverUrl this)) st)
         | Some error \<Rightarrow>
             (Inl error, this\<lparr> connected := False \<rparr>, emit (ConnectEvent (serverUrl this)) st)))"

definition disconnect :: "world \<Rightarrow> generic_mcp_client \<Rightarrow> state \<Rightarrow> generic_mcp_client \<times> state" where
  "disconnect w this st =
     (if \<not> connected this then (this, st)
      else
        (case client_close w (history st) (serverUrl this) of
           None \<Rightarrow> (this\<lparr> connected := False \<rparr>, emit (CloseEvent (serverUrl this)) st)
         | Some error \<Rightarrow> (this\<lparr> connected := False \<rparr>, emit (CloseEvent (serverUrl this)) st)))"

definition isConnected :: "generic_mcp_client \<Rightarrow> bool" where
  "isConnected this = connected this"

definition callMcpTool ::
  "world \<Rightarrow> generic_mcp_client \<Rightarrow> string \<Rightarrow> json \<Rightarrow> state
     \<Rightarrow> (js_error + call_tool_response) \<times> state" where
  "callMcpTool w this toolName arguments st =
     (if \<not> connected this then
        (Inl (Error ''Not connected to MCP server. Cannot call tool.''), st)
      else
        (let st' = emit (CallToolEvent (serverUrl this) toolName arguments) st in
         case client_callTool w (history st) (serverUrl this) toolName arguments of
           Inr result \<Rightarrow> (Inr result, st')
         | Inl error \<Rightarrow>
             (Inr \<lparr> toolCallId = Some (''error-'' @ decimal (date_now w (history st'))),
                    isError = Some True,
                    content = [TextContent (''Error calling MCP tool '' @ toolName @ '': ''
                                              @ message error)] \<rparr>,
              st')))"

definition listMcpTools ::
  "world \<Rightarrow> generic_mcp_client \<Rightarrow> state \<Rightarrow> mcp_tool list option \<times> state" where
  "listMcpTools w this st =
     (if \<not> connected this then (None, st)
      else
        (case client_listTools w (history st) (serverUrl this) of
           Inr tools \<Rightarrow>
             (Some (case tools of None \<Rightarrow> [] | Some ts \<Rightarrow> ts),
              emit (ListToolsEvent (serverUrl this)) st)
         | Inl error \<Rightarrow> (None, emit (ListToolsEvent (serverUrl this)) st)))"

text \<open>\<^verbatim>\<open>finally { if (mcpClient.isConnected()) await mcpClient.disconnect(); }\<close>\<close>

definition finally_disconnect :: "world \<Rightarrow> generic_mcp_client \<Rightarrow> state \<Rightarrow> state" where
  "finally_disconnect w mcpClient st =
     (if isConnected mcpClient then snd (disconnect w mcpClient st) else st)"

section \<open>The tool registry\<close>

text \<open>The loop over \<^verbatim>\<open>mcpTools\<close> (lines 167 to 181), pushing onto \<^verbatim>\<open>currentSessionTools\<close>.\<close>

fun mapTools :: "server_config \<Rightarrow> mcp_tool list \<Rightarrow> state \<Rightarrow> state" where
  "mapTools serverConfig [] st = st"
| "mapTools serverConfig (mcpTool # rest) st =
     (case mcpToolToGeminiFunction mcpTool (cfg_name serverConfig) of
        Some geminiFuncDecl \<Rightarrow>
          mapTools serverConfig rest
            (st\<lparr> currentSessionTools := currentSessionTools st @
                   [\<lparr> geminiFunctionDeclaration = geminiFuncDecl,
                      mcpServerName = cfg_name serverConfig,
                      mcpServerUrl = cfg_url serverConfig,
                      mcpToolName = tool_name mcpTool \<rparr>] \<rparr>)
      | None \<Rightarrow> mapTools serverConfig rest st)"

text \<open>
  One round of the loop over \<^verbatim>\<open>configuredServers\<close> (lines 159 to 192). The constructor
  stands before the \<^verbatim>\<open>try\<close>, so its exception leaves the function; an exception of
  \<^verbatim>\<open>connect\<close> is caught and dropped.
\<close>

definition discoverServer :: "world \<Rightarrow> server_config \<Rightarrow> state \<Rightarrow> (js_error + unit) \<times> state" where
  "discoverServer w serverConfig st =
     (case new_GenericMcpClient w (cfg_url serverConfig) of
        Inl e \<Rightarrow> (Inl e, st)
      | Inr mcpClient0 \<Rightarrow>
          (case connect w mcpClient0 st of
             (Inl error, mcpClient, st1) \<Rightarrow> (Inr (), finally_disconnect w mcpClient st1)
           | (Inr u, mcpClient, st1) \<Rightarrow>
               if isConnected mcpClient then
                 (case listMcpTools w mcpClient st1 of
                    (Some mcpTools, st2) \<Rightarrow>
                      if length mcpTools > 0
                      then (Inr (), finally_disconnect w mcpClient (mapTools serverConfig mcpTools st2))
                      else (Inr (), finally_disconnect w mcpClient st2)
                  | (None, st2) \<Rightarrow> (Inr (), finally_disconnect w mcpClient st2))
               else (Inr (), finally_disconnect w mcpClient st1)))"

fun discoverLoop :: "world \<Rightarrow> server_config list \<Rightarrow> state \<Rightarrow> (js_error + unit) \<times> state" where
  "discoverLoop w [] st = (Inr (), st)"
| "discoverLoop w (serverConfig # rest) st =
     (case discoverServer w serverConfig st of
        (Inl e, st') \<Rightarrow> (Inl e, st')
      | (Inr u, st') \<Rightarrow> discoverLoop w rest st')"

definition discoverAndMapAllMcpTools ::
  "world \<Rightarrow> server_config list \<Rightarrow> state \<Rightarrow> (js_error + unit) \<times> state" where
  "discoverAndMapAllMcpTools w configuredServers st =
     discoverLoop w configuredServers (st\<lparr> currentSessionTools := [] \<rparr>)"

definition getDynamicallyGeneratedGeminiFunctionDeclarations :: "state \<Rightarrow> function_declaration list" where
  "getDynamicallyGeneratedGeminiFunctionDeclarations st =
     map geminiFunctionDeclaration (currentSessionTools st)"

definition findDynamicallyMappedTool :: "state \<Rightarrow> string \<Rightarrow> tool_mapping option" where
  "findDynamicallyMappedTool st geminiFunctionName' =
     find (\<lambda>tool. fd_name (geminiFunctionDeclaration tool) = geminiFunctionName')
       (currentSessionTools st)"

section \<open>The dispatch loop of \<^verbatim>\<open>sendMessageToGemini\<close>\<close>

definition unmapped_response :: "string \<Rightarrow> part" where
  "unmapped_response name =
     FunctionResponsePart name
       (ErrorObject (''Function '' @ name @ '' is not implemented or mapped.''))"

definition execution_error_response :: "string \<Rightarrow> string \<Rightarrow> js_error \<Rightarrow> part" where
  "execution_error_response name toolName e =
     FunctionResponsePart name
       (ErrorObject (''Error executing MCP tool '' @ toolName @ '': '' @ message e))"

text \<open>
  The body of \<^verbatim>\<open>for (const call of functionCalls)\<close> (lines 116 to 160); the result is the
  part pushed onto \<^verbatim>\<open>toolResponses\<close>, or the exception that leaves the function.
\<close>

definition executeCall :: "world \<Rightarrow> function_call \<Rightarrow> state \<Rightarrow> (js_error + part) \<times> state" where
  "executeCall w call st =
     (case findDynamicallyMappedTool st (call_name call) of
        None \<Rightarrow> (Inr (unmapped_response (call_name call)), st)
      | Some mappedTool \<Rightarrow>
          (case new_GenericMcpClient w (mcpServerUrl mappedTool) of
             Inl e \<Rightarrow> (Inl e, st)
           | Inr mcpClient0 \<Rightarrow>
               (case connect w mcpClient0 st of
                  (Inl e, mcpClient, st1) \<Rightarrow>
                    (Inr (execution_error_response (call_name call) (mcpToolName mappedTool) e),
                     finally_disconnect w mcpClient st1)
                | (Inr u, mcpClient, st1) \<Rightarrow>
                    (case callMcpTool w mcpClient (mcpToolName mappedTool) (call_args call) st1 of
                       (Inl e, st2) \<Rightarrow>
                         (Inr (execution_error_response (call_name call)
                                 (mcpToolName mappedTool) e),
                          finally_disconnect w mcpClient st2)
                     | (Inr mcpToolResult, st2) \<Rightarrow>
                         (Inr (FunctionResponsePart (call_name call) (ToolResult mcpToolResult)),
                          finally_disconnect w mcpClient st2)))))"

fun executeCalls ::
  "world \<Rightarrow> function_call list \<Rightarrow> part list \<Rightarrow> state \<Rightarrow> (js_error + part list) \<times> state" where
  "executeCalls w [] toolResponses st = (Inr toolResponses, st)"
| "executeCalls w (call # rest) toolResponses st =
     (case executeCall w call st of
        (Inl e, st') \<Rightarrow> (Inl e, st')
      | (Inr p, st') \<Rightarrow> executeCalls w rest (toolResponses @ [p]) st')"

definition maxAttempts :: nat where
  "maxAttempts = 5"

definition no_response_message :: string where
  "no_response_message = ''I'm sorry, I couldn't get a response.''"

definition empty_response_message :: string where
  "empty_response_message = ''I received a response, but it was empty.''"

definition exhausted_message :: string where
  "exhausted_message =
     ''I tried several times, but I'm having trouble completing your request with tools.''"

text \<open>
  The \<^verbatim>\<open>while (attempt < maxAttempts)\<close> loop (lines 99 to 175). The message that
  \<^verbatim>\<open>processUserInput\<close> built is the first \<^verbatim>\<open>currentMessageForGemini\<close>.
\<close>

function dispatchLoop ::
  "world \<Rightarrow> nat \<Rightarrow> chat_message \<Rightarrow> state \<Rightarrow> (js_error + string) \<times> state" where
  "dispatchLoop w attempt currentMessageForGemini st =
     (if attempt < maxAttempts then
        (let st1 = emit (SendMessageEvent currentMessageForGemini) st in
         case chat_sendMessage w (history st) currentMessageForGemini of
           SendThrows e \<Rightarrow> (Inl e, st1)
         | SendOk None \<Rightarrow> (Inr no_response_message, st1)
         | SendOk (Some response) \<Rightarrow>
             (case response_functionCalls response of
                Some (call # calls) \<Rightarrow>
                  (case executeCalls w (call # calls) [] st1 of
                     (Inl e, st2) \<Rightarrow> (Inl e, st2)
                   | (Inr toolResponses, st2) \<Rightarrow>
                       dispatchLoop w (attempt + 1) (PartsMessage toolResponses) st2)
              | _ \<Rightarrow>
                  (case response_text response of
                     None \<Rightarrow> (Inr empty_response_message, st1)
                   | Some t \<Rightarrow> (Inr t, st1))))
      else (Inr exhausted_message, st))"
  by pat_completeness auto
termination
  by (relation "measure (\<lambda>(w, attempt, m, st). maxAttempts - attempt)") auto

declare dispatchLoop.simps [simp del]

definition sendMessageToGemini ::
  "world \<Rightarrow> chat_message \<Rightarrow> state \<Rightarrow> (js_error + string) \<times> state" where
  "sendMessageToGemini w currentMessageForGemini st = dispatchLoop w 0 currentMessageForGemini st"

section \<open>Notions used to state the properties\<close>

text \<open>The keys of an optional \<^verbatim>\<open>properties\<close> object; an absent object has none.\<close>

definition keys_of :: "(string \<times> 'v) list option \<Rightarrow> string set" where
  "keys_of ps = (case ps of None \<Rightarrow> {} | Some kvs \<Rightarrow> fst ` set kvs)"

text \<open>
  A tool whose \<^verbatim>\<open>inputSchema\<close> is absent, a boolean schema, or an object schema whose
  \<^verbatim>\<open>type\<close> is not the string \<^verbatim>\<open>"object"\<close>.
\<close>

definition inputSchema_rejected :: "mcp_tool \<Rightarrow> bool" where
  "inputSchema_rejected mcpTool =
     (case inputSchema mcpTool of
        None \<Rightarrow> True
      | Some (BoolSchema b) \<Rightarrow> True
      | Some (ObjSchema ty d e props items req) \<Rightarrow> ty \<noteq> Some (TypeName ''object''))"

text \<open>The number of model calls recorded in a history.\<close>

fun is_send :: "event \<Rightarrow> bool" where
  "is_send (SendMessageEvent m) = True"
| "is_send e = False"

definition sends :: "event list \<Rightarrow> nat" where
  "sends h = length (filter is_send h)"

text \<open>
  What one discovery pass builds, written as a function of the servers' answers: the
  mappings of the tools a server lists, in listing order, server after server. A server
  that cannot be connected to or whose listing fails contributes nothing; a
  configured URL that is no URL ends the pass.
\<close>

definition server_mappings :: "server_config \<Rightarrow> mcp_tool list \<Rightarrow> tool_mapping list" where
  "server_mappings serverConfig mcpTools =
     concat (map (\<lambda>t. case mcpToolToGeminiFunction t (cfg_name serverConfig) of
                         None \<Rightarrow> []
                       | Some d \<Rightarrow> [\<lparr> geminiFunctionDeclaration = d,
                                      mcpServerName = cfg_name serverConfig,
                                      mcpServerUrl = cfg_url serverConfig,
                                      mcpToolName = tool_name t \<rparr>]) mcpTools)"

definition server_contribution :: "world \<Rightarrow> server_config \<Rightarrow> event list \<Rightarrow> tool_mapping list" where
  "server_contribution w serverConfig h =
     (if client_connect w h (cfg_url serverConfig) = None then
        (case client_listTools w (h @ [ConnectEvent (cfg_url serverConfig)]) (cfg_url serverConfig) of
           Inr (Some mcpTools) \<Rightarrow> server_mappings serverConfig mcpTools
         | _ \<Rightarrow> [])
      else [])"

definition history_after :: "world \<Rightarrow> server_config \<Rightarrow> event list \<Rightarrow> event list" where
  "history_after w serverConfig h =
     history (snd (discoverServer w serverConfig \<lparr> currentSessionTools = [], history = h \<rparr>))"

fun pass_mappings :: "world \<Rightarrow> server_config list \<Rightarrow> event list \<Rightarrow> tool_mapping list" where
  "pass_mappings w [] h = []"
| "pass_mappings w (serverConfig # rest) h =
     (if valid_url w (cfg_url serverConfig)
      then server_contribution w serverConfig h
             @ pass_mappings w rest (history_after w serverConfig h)
      else [])"

section \<open>Example inputs\<close>

text \<open>
  A schema with one property of each kind: kept, boolean, nested object, \<^verbatim>\<open>null\<close>-typed;
  tools that carry it or a schema the registry rejects; and a world with one server that
  refuses connections, one that lists tools, one that lists none, tool calls that fail,
  and a model that asks for two function calls in every round.
\<close>

definition example_schema :: mcp_schema where
  "example_schema =
     ObjSchema (Some (TypeName ''object'')) None None
       (Some [(''a'', ObjSchema (Some (TypeName ''number'')) None None None None None),
              (''b'', BoolSchema True),
              (''c'', ObjSchema (Some (TypeName ''object'')) None None None None (Some [''x''])),
              (''d'', ObjSchema (Some (TypeName ''null'')) None None None None None)])
       None (Some [''a'', ''b''])"

definition example_tool :: mcp_tool where
  "example_tool =
     \<lparr> tool_name = ''do-it!'', tool_description = None,
       inputSchema = Some example_schema, annotations_title = None \<rparr>"

definition flag_tool :: mcp_tool where
  "flag_tool =
     \<lparr> tool_name = ''flag'', tool_description = Some ''always true'',
       inputSchema = Some (BoolSchema True), annotations_title = None \<rparr>"

definition bare_tool :: mcp_tool where
  "bare_tool =
     \<lparr> tool_name = ''bare'', tool_description = None,
       inputSchema = None, annotations_title = None \<rparr>"

definition text_tool :: mcp_tool where
  "text_tool =
     \<lparr> tool_name = ''text'', tool_description = None,
       inputSchema = Some (ObjSchema (Some (TypeName ''string'')) None None None None None),
       annotations_title = None \<rparr>"

definition example_world :: world where
  "example_world =
     \<lparr> valid_url = (\<lambda>u. u \<noteq> []),
       client_connect = (\<lambda>h u. if u = ''http://down'' then Some (Error ''ECONNREFUSED'') else None),
       client_close = (\<lambda>h u. None),
       client_listTools = (\<lambda>h u.
          if u = ''http://srv'' then Inr (Some [example_tool, flag_tool])
          else if u = ''http://none'' then Inr (Some [])
          else Inl (Error ''list failed'')),
       client_callTool = (\<lambda>h u n a. Inl (Error ''timeout'')),
       date_now = (\<lambda>h. 1700),
       chat_sendMessage = (\<lambda>h m.
          SendOk (Some \<lparr> response_functionCalls =
                           Some [\<lparr> call_name = ''srv_do_it_'', call_args = JObj [] \<rparr>,
                                 \<lparr> call_name = ''nope'', call_args = JObj [] \<rparr>],
                         response_text = None \<rparr>)) \<rparr>"

definition example_servers :: "server_config list" where
  "example_servers =
     [\<lparr> cfg_name = ''down'', cfg_url = ''http://down'' \<rparr>,
      \<lparr> cfg_name = ''srv'', cfg_url = ''http://srv'' \<rparr>,
      \<lparr> cfg_name = ''none'', cfg_url = ''http://none'' \<rparr>]"

definition example_mapping :: tool_mapping where
  "example_mapping =
     \<lparr> geminiFunctionDeclaration =
         \<lparr> fd_name = ''srv_do_it_'',
           fd_description = ''Calls do-it! on MCP server srv. '',
           fd_parameters =
             GSchema OBJECT None None None
               (Some [(''a'', GSchema NUMBER (Some ''Parameter a'') None None None None),
                      (''c'', GSchema OBJECT (Some ''Parameter c'') None None None None)])
               (Some [''a'', ''b'']) \<rparr>,
       mcpServerName = ''srv'',
       mcpServerUrl = ''http://srv'',
       mcpToolName = ''do-it!'' \<rparr>"

definition stale_mapping :: tool_mapping where
  "stale_mapping =
     \<lparr> geminiFunctionDeclaration =
         \<lparr> fd_name = ''old_tool'', fd_description = ''stale'',
           fd_parameters = GSchema OBJECT None None None (Some []) (Some []) \<rparr>,
       mcpServerName = ''old'',
       mcpServerUrl = ''http://old'',
       mcpToolName = ''tool'' \<rparr>"

section \<open>Auxiliary facts\<close>

subsection \<open>Strings and names\<close>

text \<open>
  The defining equation of \<^const>\<open>decimal\<close> is not a simplification rule; these two
  conditional forms of it evaluate a numeral digit by digit.
\<close>

lemma decimal_digit: "n < 10 \<Longrightarrow> decimal n = [digit n]"
  by (simp add: decimal.simps [of n])

lemma decimal_step: "10 \<le> n \<Longrightarrow> decimal n = decimal (n div 10) @ [digit (n mod 10)]"
  by (simp add: decimal.simps [of n])

lemma identifier_char_underscore: "identifier_char (CHR ''_'')"
  by (simp add: identifier_char_def)

lemma sanitize_chars: "c \<in> set (sanitize s) \<Longrightarrow> identifier_char c"
  by (auto simp: sanitize_def identifier_char_def)

lemma geminiFunctionName_take:
  "geminiFunctionName serverName toolName = take 63 (sanitize serverName @ ''_'' @ sanitize toolName)"
  by (simp add: geminiFunctionName_def Let_def)

lemma geminiFunctionName_chars:
  assumes "c \<in> set (geminiFunctionName serverName toolName)"
  shows "identifier_char c"
proof -
  from assms have "c \<in> set (sanitize serverName @ ''_'' @ sanitize toolName)"
    unfolding geminiFunctionName_take by (rule in_set_takeD)
  then show ?thesis
    using sanitize_chars identifier_char_underscore by auto
qed

lemma mcpToolToGeminiFunction_name:
  "mcpToolToGeminiFunction mcpTool serverName = Some decl \<Longrightarrow>
     fd_name decl = geminiFunctionName serverName (tool_name mcpTool)"
  by (auto simp: mcpToolToGeminiFunction_def split: option.splits mcp_schema.splits if_splits)

subsection \<open>The translator\<close>

text \<open>
  The property loop only ever assigns under keys it reads, so the keys of its result come
  from the accumulator or from the input.
\<close>

lemma translateProperties_loop_keys:
  "fst ` set (translateProperties_loop ps acc) \<subseteq> fst ` set acc \<union> fst ` set ps"
proof (induction ps arbitrary: acc)
  case Nil
  then show ?case by simp
next
  case (Cons p ps)
  obtain key sch where p: "p = (key, sch)" by (cases p)
  show ?case
  proof (cases "translateProperty key sch")
    case None
    with Cons.IH [of acc] p show ?thesis by auto
  next
    case (Some g)
    with Cons.IH [of "AList.update key g acc"] p show ?thesis
      by (auto simp: dom_update)
  qed
qed

lemma translateMcpProperties_keys:
  "keys_of (translateMcpPropertiesToGeminiProperties props) \<subseteq> keys_of props"
  using translateProperties_loop_keys [of _ "[]"]
  by (cases props) (auto simp: keys_of_def)

lemma g_required_set [simp]:
  "g_required (set_enum v g) = g_required g"
  "g_required (set_items i g) = g_required g"
  "g_required (set_properties p g) = g_required g"
  "g_required (set_required r g) = Some r"
  by (cases g; simp)+

lemma translateProperty_object_required:
  assumes "mcpSchemaTypeToGeminiSchemaType ty = Some OBJECT"
  shows "\<exists>g. translateProperty key (ObjSchema ty d e props items req) = Some g \<and>
             g_required g = (if props = None then None else req)"
  using assms by (auto simp: Let_def split: option.splits)

lemma example_translation:
  "translateMcpSchemaToGeminiSchema example_schema =
     Some (GSchema OBJECT None None None
       (Some [(''a'', GSchema NUMBER (Some ''Parameter a'') None None None None),
              (''c'', GSchema OBJECT (Some ''Parameter c'') None None None None)])
       (Some [''a'', ''b'']))"
  by (simp add: example_schema_def description_or_def)

lemma example_function_name:
  "geminiFunctionName ''my server'' ''do-it!'' = ''my_server_do_it_''"
  by (simp add: geminiFunctionName_def sanitize_def identifier_char_def)

lemma example_declaration:
  "mcpToolToGeminiFunction example_tool ''my server'' =
     Some \<lparr> fd_name = ''my_server_do_it_'',
            fd_description = ''Calls do-it! on MCP server my server. '',
            fd_parameters =
              GSchema OBJECT None None None
                (Some [(''a'', GSchema NUMBER (Some ''Parameter a'') None None None None),
                       (''c'', GSchema OBJECT (Some ''Parameter c'') None None None None)])
                (Some [''a'', ''b'']) \<rparr>"
  using example_translation
  by (simp add: mcpToolToGeminiFunction_def example_tool_def example_schema_def
      example_function_name description_or_def)

lemma example_declaration_srv:
  "mcpToolToGeminiFunction example_tool ''srv'' = Some (geminiFunctionDeclaration example_mapping)"
  using example_translation
  by (simp add: mcpToolToGeminiFunction_def example_tool_def example_schema_def example_mapping_def
      geminiFunctionName_def sanitize_def identifier_char_def description_or_def)

subsection \<open>The tool loop of the registry\<close>

lemma mapTools_rejected_step:
  "inputSchema_rejected mcpTool \<Longrightarrow> mcpToolToGeminiFunction mcpTool serverName = None"
  by (auto simp: inputSchema_rejected_def mcpToolToGeminiFunction_def
      split: option.splits mcp_schema.splits)

lemma mapTools_filter:
  "mapTools serverConfig mcpTools st =
     mapTools serverConfig (filter (\<lambda>t. \<not> inputSchema_rejected t) mcpTools) st"
  by (induction mcpTools arbitrary: st) (auto simp: mapTools_rejected_step split: option.splits)

lemma rejected_examples:
  "inputSchema_rejected flag_tool" "inputSchema_rejected bare_tool" "inputSchema_rejected text_tool"
  by (simp_all add: inputSchema_rejected_def flag_tool_def bare_tool_def text_tool_def)

lemma flag_tool_not_mapped: "mcpToolToGeminiFunction flag_tool ''srv'' = None"
  by (simp add: mcpToolToGeminiFunction_def flag_tool_def)

lemma mapTools_history [simp]: "history (mapTools serverConfig mcpTools st) = history st"
  by (induction mcpTools arbitrary: st) (auto split: option.splits)

lemma mapTools_entries:
  assumes "m \<in> set (currentSessionTools (mapTools serverConfig mcpTools st))"
  shows "m \<in> set (currentSessionTools st) \<or>
         (mcpServerName m = cfg_name serverConfig \<and> mcpServerUrl m = cfg_url serverConfig \<and>
          (\<exists>t \<in> set mcpTools. mcpToolName m = tool_name t \<and>
             mcpToolToGeminiFunction t (cfg_name serverConfig) = Some (geminiFunctionDeclaration m)))"
  using assms
proof (induction mcpTools arbitrary: st)
  case Nil
  then show ?case by simp
next
  case (Cons t ts)
  show ?case
  proof (cases "mcpToolToGeminiFunction t (cfg_name serverConfig)")
    case None
    with Cons.prems have "m \<in> set (currentSessionTools (mapTools serverConfig ts st))"
      by simp
    from Cons.IH [OF this] show ?thesis by auto
  next
    case (Some d)
    let ?st = "st\<lparr> currentSessionTools := currentSessionTools st @
                   [\<lparr> geminiFunctionDeclaration = d,
                      mcpServerName = cfg_name serverConfig,
                      mcpServerUrl = cfg_url serverConfig,
                      mcpToolName = tool_name t \<rparr>] \<rparr>"
    from Some Cons.prems have "m \<in> set (currentSessionTools (mapTools serverConfig ts ?st))"
      by simp
    from Cons.IH [OF this] Some show ?thesis by auto
  qed
qed

lemma mapTools_appends:
  "mapTools serverConfig mcpTools st
     = st\<lparr> currentSessionTools := currentSessionTools st @ server_mappings serverConfig mcpTools \<rparr>"
  by (induction mcpTools arbitrary: st) (auto simp: server_mappings_def split: option.splits)

subsection \<open>What the client operations leave unchanged\<close>

text \<open>
  No operation of the client touches \<^verbatim>\<open>currentSessionTools\<close>, and none of them calls
  the model.
\<close>

lemma emit_simps [simp]:
  "currentSessionTools (emit e st) = currentSessionTools st"
  "history (emit e st) = history st @ [e]"
  by (simp_all add: emit_def)

lemma sends_append [simp]: "sends (h @ [e]) = sends h + (if is_send e then 1 else 0)"
  by (simp add: sends_def)

lemma connect_table:
  "connect w this st = (r, this', st') \<Longrightarrow>
     currentSessionTools st' = currentSessionTools st \<and> sends (history st') = sends (history st)"
  by (auto simp: connect_def split: if_splits option.splits)

lemma connect_ok_connected:
  "connect w this st = (Inr u, this', st') \<Longrightarrow> connected this'"
  by (auto simp: connect_def split: if_splits option.splits)

lemma disconnect_table:
  "currentSessionTools (snd (disconnect w this st)) = currentSessionTools st \<and>
   sends (history (snd (disconnect w this st))) = sends (history st)"
  by (auto simp: disconnect_def split: option.splits)

lemma finally_disconnect_table [simp]:
  "currentSessionTools (finally_disconnect w this st) = currentSessionTools st"
  "sends (history (finally_disconnect w this st)) = sends (history st)"
  by (simp_all add: finally_disconnect_def disconnect_table)

lemma listMcpTools_table:
  "listMcpTools w this st = (r, st') \<Longrightarrow>
     currentSessionTools st' = currentSessionTools st \<and> sends (history st') = sends (history st)"
  by (auto simp: listMcpTools_def split: if_splits sum.splits)

lemma callMcpTool_table:
  "callMcpTool w this toolName arguments st = (r, st') \<Longrightarrow>
     currentSessionTools st' = currentSessionTools st \<and> sends (history st') = sends (history st)"
  by (auto simp: callMcpTool_def Let_def split: if_splits sum.splits)

lemma callMcpTool_connected:
  "connected this \<Longrightarrow> \<exists>result st'. callMcpTool w this toolName arguments st = (Inr result, st')"
  by (auto simp: callMcpTool_def Let_def split: sum.splits)

subsection \<open>Discovery\<close>

text \<open>
  Every mapping that one round of discovery adds comes from a tool that the round's
  server listed, and the server's URL passed the constructor.
\<close>

lemma discoverServer_entries:
  assumes "m \<in> set (currentSessionTools (snd (discoverServer w serverConfig st)))"
  shows "m \<in> set (currentSessionTools st) \<or>
         (valid_url w (cfg_url serverConfig) \<and>
          mcpServerName m = cfg_name serverConfig \<and> mcpServerUrl m = cfg_url serverConfig \<and>
          (\<exists>h ts. client_listTools w h (cfg_url serverConfig) = Inr (Some ts) \<and>
             (\<exists>t \<in> set ts. mcpToolName m = tool_name t \<and>
                mcpToolToGeminiFunction t (cfg_name serverConfig)
                  = Some (geminiFunctionDeclaration m))))"
proof (cases "valid_url w (cfg_url serverConfig)")
  case False
  with assms show ?thesis
    by (simp add: discoverServer_def new_GenericMcpClient_def)
next
  case True
  let ?c0 = "\<lparr> serverUrl = cfg_url serverConfig, connected = False \<rparr>"
  obtain r mcpClient st1 where c: "connect w ?c0 st = (r, mcpClient, st1)"
    by (cases "connect w ?c0 st") auto
  have url: "serverUrl mcpClient = cfg_url serverConfig"
    using c by (auto simp: connect_def split: option.splits)
  have t1: "currentSessionTools st1 = currentSessionTools st"
    using connect_table [OF c] by simp
  show ?thesis
  proof (cases r)
    case (Inl e)
    with assms True c t1 show ?thesis
      by (simp add: discoverServer_def new_GenericMcpClient_def)
  next
    case (Inr u)
    show ?thesis
    proof (cases "isConnected mcpClient")
      case False
      with assms True c t1 Inr show ?thesis
        by (simp add: discoverServer_def new_GenericMcpClient_def)
    next
      case conn: True
      obtain mcpTools st2 where l: "listMcpTools w mcpClient st1 = (mcpTools, st2)"
        by (cases "listMcpTools w mcpClient st1") auto
      have t2: "currentSessionTools st2 = currentSessionTools st"
        using listMcpTools_table [OF l] t1 by simp
      show ?thesis
      proof (cases mcpTools)
        case None
        with assms True c Inr conn l t2 show ?thesis
          by (simp add: discoverServer_def new_GenericMcpClient_def)
      next
        case (Some ts)
        show ?thesis
        proof (cases "length ts > 0")
          case False
          with assms True c Inr conn l t2 Some show ?thesis
            by (simp add: discoverServer_def new_GenericMcpClient_def)
        next
          case nonempty: True
          from l Some conn obtain tools where
            lt: "client_listTools w (history st1) (cfg_url serverConfig) = Inr tools"
            and ts: "ts = (case tools of None \<Rightarrow> [] | Some ts' \<Rightarrow> ts')"
            by (auto simp: listMcpTools_def isConnected_def url split: if_splits sum.splits)
          from ts nonempty have tools: "tools = Some ts"
            by (cases tools) auto
          from assms True c Inr conn l Some nonempty
          have "m \<in> set (currentSessionTools (mapTools serverConfig ts st2))"
            by (simp add: discoverServer_def new_GenericMcpClient_def)
          from mapTools_entries [OF this] show ?thesis
          proof
            assume "m \<in> set (currentSessionTools st2)"
            with t2 show ?thesis by simp
          next
            assume "mcpServerName m = cfg_name serverConfig \<and>
              mcpServerUrl m = cfg_url serverConfig \<and>
              (\<exists>t \<in> set ts. mcpToolName m = tool_name t \<and>
                 mcpToolToGeminiFunction t (cfg_name serverConfig)
                   = Some (geminiFunctionDeclaration m))"
            with True lt tools show ?thesis
              by (intro disjI2 conjI exI [of _ "history st1"] exI [of _ ts]) auto
          qed
        qed
      qed
    qed
  qed
qed

lemma discoverServer_failing:
  assumes "\<not> valid_url w (cfg_url serverConfig) \<or>
           (\<forall>h. client_connect w h (cfg_url serverConfig) \<noteq> None) \<or>
           (\<forall>h. isl (client_listTools w h (cfg_url serverConfig)))"
  shows "currentSessionTools (snd (discoverServer w serverConfig st)) = currentSessionTools st"
proof (cases "valid_url w (cfg_url serverConfig)")
  case False
  then show ?thesis
    by (simp add: discoverServer_def new_GenericMcpClient_def)
next
  case True
  let ?c0 = "\<lparr> serverUrl = cfg_url serverConfig, connected = False \<rparr>"
  obtain r mcpClient st1 where c: "connect w ?c0 st = (r, mcpClient, st1)"
    by (cases "connect w ?c0 st") auto
  have url: "serverUrl mcpClient = cfg_url serverConfig"
    using c by (auto simp: connect_def split: option.splits)
  have t1: "currentSessionTools st1 = currentSessionTools st"
    using connect_table [OF c] by simp
  show ?thesis
  proof (cases r)
    case (Inl e)
    with True c t1 show ?thesis
      by (simp add: discoverServer_def new_GenericMcpClient_def)
  next
    case (Inr u)
    with c have "client_connect w (history st) (cfg_url serverConfig) = None"
      by (auto simp: connect_def split: option.splits)
    then have "\<not> (\<forall>h. client_connect w h (cfg_url serverConfig) \<noteq> None)"
      by blast
    with assms True have lf: "isl (client_listTools w (history st1) (cfg_url serverConfig))"
      by blast
    obtain mcpTools st2 where l: "listMcpTools w mcpClient st1 = (mcpTools, st2)"
      by (cases "listMcpTools w mcpClient st1") auto
    have t2: "currentSessionTools st2 = currentSessionTools st"
      using listMcpTools_table [OF l] t1 by simp
    from l lf have "mcpTools = None"
      by (auto simp: listMcpTools_def url split: if_splits sum.splits)
    with True c Inr l t1 t2 show ?thesis
      by (simp add: discoverServer_def new_GenericMcpClient_def)
  qed
qed

lemma discoverLoop_entries:
  assumes "m \<in> set (currentSessionTools (snd (discoverLoop w servers st)))"
  shows "m \<in> set (currentSessionTools st) \<or>
         (\<exists>serverConfig \<in> set servers.
            valid_url w (cfg_url serverConfig) \<and>
            mcpServerName m = cfg_name serverConfig \<and> mcpServerUrl m = cfg_url serverConfig \<and>
            (\<exists>h ts. client_listTools w h (cfg_url serverConfig) = Inr (Some ts) \<and>
               (\<exists>t \<in> set ts. mcpToolName m = tool_name t \<and>
                  mcpToolToGeminiFunction t (cfg_name serverConfig)
                    = Some (geminiFunctionDeclaration m))))"
  using assms
proof (induction servers arbitrary: st)
  case Nil
  then show ?case by simp
next
  case (Cons serverConfig rest)
  obtain r st' where d: "discoverServer w serverConfig st = (r, st')"
    by (cases "discoverServer w serverConfig st") auto
  have "m \<in> set (currentSessionTools st') \<or>
        m \<in> set (currentSessionTools (snd (discoverLoop w rest st')))"
    using Cons.prems d by (cases r) auto
  then have "m \<in> set (currentSessionTools st') \<or>
         (\<exists>serverConfig \<in> set rest.
            valid_url w (cfg_url serverConfig) \<and>
            mcpServerName m = cfg_name serverConfig \<and> mcpServerUrl m = cfg_url serverConfig \<and>
            (\<exists>h ts. client_listTools w h (cfg_url serverConfig) = Inr (Some ts) \<and>
               (\<exists>t \<in> set ts. mcpToolName m = tool_name t \<and>
                  mcpToolToGeminiFunction t (cfg_name serverConfig)
                    = Some (geminiFunctionDeclaration m))))"
    using Cons.IH [of st'] by blast
  moreover have "m \<in> set (currentSessionTools st') \<Longrightarrow> ?case"
    using discoverServer_entries [of m w serverConfig st] d by auto
  ultimately show ?case by auto
qed

lemma discoverLoop_failing:
  assumes "\<forall>serverConfig \<in> set servers.
             \<not> valid_url w (cfg_url serverConfig) \<or>
             (\<forall>h. client_connect w h (cfg_url serverConfig) \<noteq> None) \<or>
             (\<forall>h. isl (client_listTools w h (cfg_url serverConfig)))"
  shows "currentSessionTools (snd (discoverLoop w servers st)) = currentSessionTools st"
  using assms
proof (induction servers arbitrary: st)
  case Nil
  then show ?case by simp
next
  case (Cons serverConfig rest)
  obtain r st' where d: "discoverServer w serverConfig st = (r, st')"
    by (cases "discoverServer w serverConfig st") auto
  have "currentSessionTools st' = currentSessionTools st"
    using discoverServer_failing [of w serverConfig st] Cons.prems d by simp
  moreover have "currentSessionTools (snd (discoverLoop w rest st')) = currentSessionTools st'"
    using Cons.IH [of st'] Cons.prems by simp
  ultimately show ?case
    using d by (cases r) auto
qed

lemma discoverServer_appends:
  "discoverServer w serverConfig st = (Inr u, st') \<Longrightarrow>
     currentSessionTools st'
       = currentSessionTools st @ server_contribution w serverConfig (history st)"
  by (auto simp: discoverServer_def new_GenericMcpClient_def connect_def listMcpTools_def
      isConnected_def server_contribution_def mapTools_appends server_mappings_def
      split: if_splits option.splits sum.splits)

lemma discoverServer_raises:
  "discoverServer w serverConfig st = (Inl e, st') \<Longrightarrow>
     st' = st \<and> \<not> valid_url w (cfg_url serverConfig)"
  by (auto simp: discoverServer_def new_GenericMcpClient_def connect_def listMcpTools_def
      isConnected_def split: if_splits option.splits sum.splits prod.splits)

lemma discoverServer_returns:
  "discoverServer w serverConfig st = (Inr u, st') \<Longrightarrow> valid_url w (cfg_url serverConfig)"
  by (auto simp: discoverServer_def new_GenericMcpClient_def split: if_splits)

lemma discoverServer_history:
  "history (snd (discoverServer w serverConfig st)) = history_after w serverConfig (history st)"
  by (auto simp: history_after_def discoverServer_def new_GenericMcpClient_def connect_def
      listMcpTools_def isConnected_def finally_disconnect_def disconnect_def emit_def
      mapTools_appends
      split: if_splits option.splits sum.splits)

lemma discoverLoop_pass_mappings:
  "currentSessionTools (snd (discoverLoop w servers st))
     = currentSessionTools st @ pass_mappings w servers (history st)"
proof (induction servers arbitrary: st)
  case Nil
  then show ?case by simp
next
  case (Cons serverConfig rest)
  obtain r st' where d: "discoverServer w serverConfig st = (r, st')"
    by (cases "discoverServer w serverConfig st") auto
  show ?case
  proof (cases r)
    case (Inl e)
    with d discoverServer_raises [of w serverConfig st e st'] show ?thesis
      by simp
  next
    case (Inr u)
    with d have v: "valid_url w (cfg_url serverConfig)"
      using discoverServer_returns by blast
    from d Inr have t: "currentSessionTools st'
       = currentSessionTools st @ server_contribution w serverConfig (history st)"
      using discoverServer_appends by blast
    from d have h: "history st' = history_after w serverConfig (history st)"
      using discoverServer_history [of w serverConfig st] by simp
    from d Inr have "currentSessionTools (snd (discoverLoop w (serverConfig # rest) st))
       = currentSessionTools (snd (discoverLoop w rest st'))"
      by simp
    also have "\<dots> = currentSessionTools st' @ pass_mappings w rest (history st')"
      by (rule Cons.IH)
    finally show ?thesis
      using v t h by simp
  qed
qed

lemma discovered_urls_valid:
  "m \<in> set (currentSessionTools (snd (discoverAndMapAllMcpTools w servers st))) \<Longrightarrow>
     valid_url w (mcpServerUrl m)"
  using discoverLoop_entries [of m w servers "st\<lparr> currentSessionTools := [] \<rparr>"]
  by (auto simp: discoverAndMapAllMcpTools_def)

lemma example_discovery:
  "discoverAndMapAllMcpTools example_world example_servers
       \<lparr> currentSessionTools = previous, history = [] \<rparr>
     = (Inr (),
        \<lparr> currentSessionTools = [example_mapping],
          history = [ConnectEvent ''http://down'',
                     ConnectEvent ''http://srv'', ListToolsEvent ''http://srv'', CloseEvent ''http://srv'',
                     ConnectEvent ''http://none'', ListToolsEvent ''http://none'', CloseEvent ''http://none''] \<rparr>)"
proof -
  have w: "valid_url example_world = (\<lambda>u. u \<noteq> [])"
    "client_connect example_world = (\<lambda>h u. if u = ''http://down'' then Some (Error ''ECONNREFUSED'') else None)"
    "client_close example_world = (\<lambda>h u. None)"
    "client_listTools example_world = (\<lambda>h u.
          if u = ''http://srv'' then Inr (Some [example_tool, flag_tool])
          else if u = ''http://none'' then Inr (Some [])
          else Inl (Error ''list failed''))"
    by (simp_all add: example_world_def)
  have m: "mapTools \<lparr> cfg_name = ''srv'', cfg_url = ''http://srv'' \<rparr> [example_tool, flag_tool] st
      = st\<lparr> currentSessionTools := currentSessionTools st @ [example_mapping] \<rparr>" for st
  proof -
    have n: "tool_name example_tool = ''do-it!''"
      by (simp add: example_tool_def)
    show ?thesis
      by (simp add: example_declaration_srv flag_tool_not_mapped n)
        (simp add: example_mapping_def)
  qed
  show ?thesis
    by (simp add: discoverAndMapAllMcpTools_def example_servers_def discoverServer_def
        new_GenericMcpClient_def connect_def listMcpTools_def finally_disconnect_def
        disconnect_def isConnected_def emit_def w m del: mapTools.simps)
qed

subsection \<open>Tool execution and the dispatch loop\<close>

text \<open>
  With a table whose URLs all pass the constructor, executing a call always yields a
  part: every exception inside the \<^verbatim>\<open>try\<close> is turned into an error response.
\<close>

lemma executeCall_returns:
  assumes "\<forall>m \<in> set (currentSessionTools st). valid_url w (mcpServerUrl m)"
  shows "\<exists>p st'. executeCall w call st = (Inr p, st') \<and>
           currentSessionTools st' = currentSessionTools st \<and>
           sends (history st') = sends (history st)"
proof (cases "findDynamicallyMappedTool st (call_name call)")
  case None
  then show ?thesis
    by (simp add: executeCall_def)
next
  case (Some mappedTool)
  then have "mappedTool \<in> set (currentSessionTools st)"
    by (auto simp: findDynamicallyMappedTool_def find_Some_iff)
  with assms have v: "valid_url w (mcpServerUrl mappedTool)"
    by blast
  let ?c0 = "\<lparr> serverUrl = mcpServerUrl mappedTool, connected = False \<rparr>"
  obtain r mcpClient st1 where c: "connect w ?c0 st = (r, mcpClient, st1)"
    by (cases "connect w ?c0 st") auto
  note t1 = connect_table [OF c]
  show ?thesis
  proof (cases r)
    case (Inl e)
    with Some v c t1 show ?thesis
      by (simp add: executeCall_def new_GenericMcpClient_def)
  next
    case (Inr u)
    with c have "connected mcpClient"
      using connect_ok_connected by blast
    from callMcpTool_connected [OF this]
    obtain result st2 where
      k: "callMcpTool w mcpClient (mcpToolName mappedTool) (call_args call) st1 = (Inr result, st2)"
      by blast
    note t2 = callMcpTool_table [OF k]
    from Some v c Inr k t1 t2 show ?thesis
      by (simp add: executeCall_def new_GenericMcpClient_def)
  qed
qed

lemma executeCalls_returns:
  assumes "\<forall>m \<in> set (currentSessionTools st). valid_url w (mcpServerUrl m)"
  shows "\<exists>ps st'. executeCalls w calls toolResponses st = (Inr (toolResponses @ ps), st') \<and>
           length ps = length calls \<and>
           currentSessionTools st' = currentSessionTools st \<and>
           sends (history st') = sends (history st)"
  using assms
proof (induction calls arbitrary: toolResponses st)
  case Nil
  then show ?case by simp
next
  case (Cons call rest)
  from executeCall_returns [OF Cons.prems, of call]
  obtain p st1 where e: "executeCall w call st = (Inr p, st1)"
    and t: "currentSessionTools st1 = currentSessionTools st"
    and s: "sends (history st1) = sends (history st)"
    by blast
  from t Cons.prems have "\<forall>m \<in> set (currentSessionTools st1). valid_url w (mcpServerUrl m)"
    by simp
  from Cons.IH [OF this, of "toolResponses @ [p]"]
  obtain ps st' where
    r: "executeCalls w rest (toolResponses @ [p]) st1 = (Inr ((toolResponses @ [p]) @ ps), st')"
    and l: "length ps = length rest"
    and t': "currentSessionTools st' = currentSessionTools st1"
    and s': "sends (history st') = sends (history st1)"
    by blast
  from e r have "executeCalls w (call # rest) toolResponses st = (Inr (toolResponses @ (p # ps)), st')"
    by simp
  with l t t' s s' show ?case
    by (intro exI [of _ "p # ps"] exI [of _ st']) simp
qed

lemma executeCalls_append:
  "executeCalls w (before @ rest) toolResponses st =
     (case executeCalls w before toolResponses st of
        (Inl e, st') \<Rightarrow> (Inl e, st')
      | (Inr toolResponses', st') \<Rightarrow> executeCalls w rest toolResponses' st')"
  by (induction before arbitrary: toolResponses st) (auto split: prod.splits sum.splits)

lemma unmapped_round:
  assumes v: "\<forall>m \<in> set (currentSessionTools st). valid_url w (mcpServerUrl m)"
    and n: "findDynamicallyMappedTool st (call_name call) = None"
  shows "\<exists>ps st'. executeCalls w (before @ call # rest) [] st = (Inr ps, st') \<and>
           length ps = length before + 1 + length rest \<and>
           ps ! length before = unmapped_response (call_name call)"
proof -
  from executeCalls_returns [OF v, of before "[]"]
  obtain ps1 st1 where 1: "executeCalls w before [] st = (Inr ps1, st1)"
    and l1: "length ps1 = length before"
    and t1: "currentSessionTools st1 = currentSessionTools st"
    by auto
  from n t1 have n1: "findDynamicallyMappedTool st1 (call_name call) = None"
    by (simp add: findDynamicallyMappedTool_def)
  from v t1 have v1: "\<forall>m \<in> set (currentSessionTools st1). valid_url w (mcpServerUrl m)"
    by simp
  from executeCalls_returns [OF v1, of rest "ps1 @ [unmapped_response (call_name call)]"]
  obtain ps2 st2 where 2: "executeCalls w rest (ps1 @ [unmapped_response (call_name call)]) st1
        = (Inr ((ps1 @ [unmapped_response (call_name call)]) @ ps2), st2)"
    and l2: "length ps2 = length rest"
    by blast
  have "executeCalls w (before @ call # rest) [] st
      = (Inr (ps1 @ unmapped_response (call_name call) # ps2), st2)"
    using 1 2 n1 by (simp add: executeCalls_append executeCall_def)
  moreover have "(ps1 @ unmapped_response (call_name call) # ps2) ! length before
      = unmapped_response (call_name call)"
    using l1 by (simp add: nth_append)
  ultimately show ?thesis
    using l1 l2 by simp
qed

lemma example_round:
  "executeCalls example_world
       [\<lparr> call_name = ''srv_do_it_'', call_args = JObj [] \<rparr>,
        \<lparr> call_name = ''nope'', call_args = JObj [] \<rparr>] []
       \<lparr> currentSessionTools = [example_mapping], history = [] \<rparr>
     = (Inr [FunctionResponsePart ''srv_do_it_''
               (ToolResult \<lparr> toolCallId = Some ''error-1700'', isError = Some True,
                   content = [TextContent ''Error calling MCP tool do-it!: timeout''] \<rparr>),
             FunctionResponsePart ''nope''
               (ErrorObject ''Function nope is not implemented or mapped.'')],
        \<lparr> currentSessionTools = [example_mapping],
          history = [ConnectEvent ''http://srv'',
                     CallToolEvent ''http://srv'' ''do-it!'' (JObj []),
                     CloseEvent ''http://srv''] \<rparr>)"
proof -
  have d: "decimal 1700 = ''1700''"
    by (simp add: decimal_digit decimal_step digit_def)
  have w: "valid_url example_world = (\<lambda>u. u \<noteq> [])"
    "client_connect example_world = (\<lambda>h u. if u = ''http://down'' then Some (Error ''ECONNREFUSED'') else None)"
    "client_close example_world = (\<lambda>h u. None)"
    "client_callTool example_world = (\<lambda>h u n a. Inl (Error ''timeout''))"
    "date_now example_world = (\<lambda>h. 1700)"
    by (simp_all add: example_world_def)
  have m: "fd_name (geminiFunctionDeclaration example_mapping) = ''srv_do_it_''"
    "mcpServerUrl example_mapping = ''http://srv''"
    "mcpToolName example_mapping = ''do-it!''"
    by (simp_all add: example_mapping_def)
  show ?thesis
    by (simp add: executeCall_def findDynamicallyMappedTool_def new_GenericMcpClient_def
        connect_def callMcpTool_def finally_disconnect_def disconnect_def isConnected_def
        emit_def unmapped_response_def Let_def w m d)
qed

lemma dispatchLoop_exhausts:
  assumes calls: "\<forall>h m. \<exists>response call calls.
             chat_sendMessage w h m = SendOk (Some response) \<and>
             response_functionCalls response = Some (call # calls)"
  shows "maxAttempts - attempt = k \<Longrightarrow> attempt \<le> maxAttempts \<Longrightarrow>
         \<forall>m \<in> set (currentSessionTools st). valid_url w (mcpServerUrl m) \<Longrightarrow>
         \<exists>st'. dispatchLoop w attempt msg st = (Inr exhausted_message, st') \<and>
               sends (history st') = sends (history st) + k \<and>
               currentSessionTools st' = currentSessionTools st"
proof (induction k arbitrary: attempt msg st)
  case 0
  then have "\<not> attempt < maxAttempts" by simp
  then show ?case
    by (simp add: dispatchLoop.simps [of w attempt msg st])
next
  case (Suc k)
  then have lt: "attempt < maxAttempts" by simp
  let ?st1 = "emit (SendMessageEvent msg) st"
  from calls obtain response call rest where
    r: "chat_sendMessage w (history st) msg = SendOk (Some response)"
    and f: "response_functionCalls response = Some (call # rest)"
    by blast
  have "\<forall>m \<in> set (currentSessionTools ?st1). valid_url w (mcpServerUrl m)"
    using Suc.prems(3) by simp
  from executeCalls_returns [OF this, of "call # rest" "[]"]
  obtain ps st2 where
    e: "executeCalls w (call # rest) [] ?st1 = (Inr ps, st2)"
    and t2: "currentSessionTools st2 = currentSessionTools st"
    and s2: "sends (history st2) = sends (history st) + 1"
    by auto
  have step: "dispatchLoop w attempt msg st = dispatchLoop w (attempt + 1) (PartsMessage ps) st2"
    using lt r f e by (simp add: dispatchLoop.simps [of w attempt msg st] Let_def)
  have "maxAttempts - (attempt + 1) = k" "attempt + 1 \<le> maxAttempts"
    using Suc.prems(1) lt by simp_all
  moreover have "\<forall>m \<in> set (currentSessionTools st2). valid_url w (mcpServerUrl m)"
    using Suc.prems(3) t2 by simp
  ultimately obtain st' where
    "dispatchLoop w (attempt + 1) (PartsMessage ps) st2 = (Inr exhausted_message, st')"
    "sends (history st') = sends (history st2) + k"
    "currentSessionTools st' = currentSessionTools st2"
    using Suc.IH [of "attempt + 1" st2 "PartsMessage ps"] by blast
  with step t2 s2 show ?case
    by simp
qed

section \<open>The claims\<close>

subsection \<open>Schema translator\<close>

text \<open>
  Claim C1, as amended. For an object schema whose \<^verbatim>\<open>type\<close> is missing or is not the
  string \<^verbatim>\<open>"object"\<close>, \<^verbatim>\<open>translateMcpSchemaToGeminiSchema\<close> returns the empty object
  schema \<^verbatim>\<open>{type: OBJECT, properties: {}, required: []}\<close>. For a boolean schema it returns
  no result (\<^verbatim>\<open>undefined\<close>).
\<close>

theorem translate_non_object_schema:
  "translateMcpSchemaToGeminiSchema (BoolSchema b) = None \<and>
   (ty \<noteq> Some (TypeName ''object'') \<longrightarrow>
      translateMcpSchemaToGeminiSchema (ObjSchema ty d e props items req)
        = Some (GSchema OBJECT None None None (Some []) (Some [])))"
  by simp

theorem translate_non_object_schema_witness:
  "translateMcpSchemaToGeminiSchema (BoolSchema False) = None \<and>
   translateMcpSchemaToGeminiSchema
       (ObjSchema (Some (TypeName ''string'')) None None
          (Some [(''a'', ObjSchema (Some (TypeName ''number'')) None None None None None)])
          None (Some [''a'']))
     = Some (GSchema OBJECT None None None (Some []) (Some [])) \<and>
   translateMcpSchemaToGeminiSchema (ObjSchema None None None None None None)
     = Some (GSchema OBJECT None None None (Some []) (Some []))"
  using translate_non_object_schema [of False "Some (TypeName ''string'')" None None
          "Some [(''a'', ObjSchema (Some (TypeName ''number'')) None None None None None)]"
          None "Some [''a'']"]
        translate_non_object_schema [of False None None None None None None]
  by simp

text \<open>
  Claim C1 as stated fails for boolean schemas: the translator returns \<^verbatim>\<open>undefined\<close> for
  the schema \<^verbatim>\<open>true\<close>, not the empty object schema.
\<close>

theorem translate_boolean_schema_counterexample:
  "translateMcpSchemaToGeminiSchema (BoolSchema True) = None \<and>
   translateMcpSchemaToGeminiSchema (BoolSchema True)
     \<noteq> Some (GSchema OBJECT None None None (Some []) (Some []))"
  by simp

text \<open>
  Claim C7. For every object schema of type \<^verbatim>\<open>"object"\<close> the translator returns a schema,
  and the keys of its \<^verbatim>\<open>properties\<close> are among the keys of the input's \<^verbatim>\<open>properties\<close>:
  properties are dropped, never invented.
\<close>

theorem translated_property_keys_subset:
  "\<exists>g. translateMcpSchemaToGeminiSchema
            (ObjSchema (Some (TypeName ''object'')) d e props items req) = Some g
       \<and> keys_of (g_properties g) \<subseteq> keys_of props"
  using translateMcpProperties_keys [of props]
  by (auto simp: keys_of_def split: option.splits)

theorem translated_property_keys_subset_witness:
  "\<exists>g. translateMcpSchemaToGeminiSchema example_schema = Some g \<and>
       keys_of (g_properties g) = {''a'', ''c''} \<and>
       keys_of (s_properties example_schema) = {''a'', ''b'', ''c'', ''d''}"
proof -
  let ?props = "Some [(''a'', ObjSchema (Some (TypeName ''number'')) None None None None None),
              (''b'', BoolSchema True),
              (''c'', ObjSchema (Some (TypeName ''object'')) None None None None (Some [''x''])),
              (''d'', ObjSchema (Some (TypeName ''null'')) None None None None None)]"
  from translated_property_keys_subset [of None None ?props None "Some [''a'', ''b'']"]
  obtain g where g: "translateMcpSchemaToGeminiSchema example_schema = Some g"
    and "keys_of (g_properties g) \<subseteq> keys_of ?props"
    unfolding example_schema_def by blast
  from g example_translation have "keys_of (g_properties g) = {''a'', ''c''}"
    by (auto simp: keys_of_def)
  moreover have "keys_of (s_properties example_schema) = {''a'', ''b'', ''c'', ''d''}"
    by (auto simp: example_schema_def keys_of_def)
  ultimately show ?thesis
    using g by blast
qed

text \<open>
  Claim C10, as amended. At the top level the translator copies \<^verbatim>\<open>required\<close> verbatim,
  with the empty list when it is absent. For a nested property whose type maps to OBJECT
  it copies \<^verbatim>\<open>required\<close> verbatim only when the property has a \<^verbatim>\<open>properties\<close> member,
  and leaves it unset otherwise (also when \<^verbatim>\<open>required\<close> itself is absent). Nothing is
  filtered against the properties that survive, so some input yields a schema whose
  \<^verbatim>\<open>required\<close> names a key that its \<^verbatim>\<open>properties\<close> lack.
\<close>

theorem required_copied_unfiltered:
  "(\<exists>g. translateMcpSchemaToGeminiSchema
            (ObjSchema (Some (TypeName ''object'')) d e props items req) = Some g \<and>
         g_required g = Some (case req of None \<Rightarrow> [] | Some r \<Rightarrow> r)) \<and>
   (mcpSchemaTypeToGeminiSchemaType ty = Some OBJECT \<longrightarrow>
      (\<exists>g. translateProperty key (ObjSchema ty d' e' props' items' req') = Some g \<and>
            g_required g = (if props' = None then None else req'))) \<and>
   (\<exists>s g r. translateMcpSchemaToGeminiSchema s = Some g \<and> g_required g = Some r \<and>
        \<not> set r \<subseteq> keys_of (g_properties g))"
proof (intro conjI)
  show "\<exists>g. translateMcpSchemaToGeminiSchema
            (ObjSchema (Some (TypeName ''object'')) d e props items req) = Some g \<and>
         g_required g = Some (case req of None \<Rightarrow> [] | Some r \<Rightarrow> r)"
    by simp
  show "mcpSchemaTypeToGeminiSchemaType ty = Some OBJECT \<longrightarrow>
      (\<exists>g. translateProperty key (ObjSchema ty d' e' props' items' req') = Some g \<and>
            g_required g = (if props' = None then None else req'))"
    using translateProperty_object_required by blast
  have "g_required (the (translateMcpSchemaToGeminiSchema example_schema)) = Some [''a'', ''b'']"
    and "\<not> set [''a'', ''b''] \<subseteq> keys_of (g_properties (the (translateMcpSchemaToGeminiSchema example_schema)))"
    by (simp_all add: example_translation keys_of_def)
  then show "\<exists>s g r. translateMcpSchemaToGeminiSchema s = Some g \<and> g_required g = Some r \<and>
        \<not> set r \<subseteq> keys_of (g_properties g)"
    using example_translation by (metis option.sel)
qed

theorem required_copied_unfiltered_witness:
  "(\<exists>g. translateProperty ''c''
            (ObjSchema (Some (TypeArray [TypeNull, TypeName ''object''])) None None
               (Some [(''x'', BoolSchema True)]) None (Some [''x''])) = Some g \<and>
         g_required g = Some [''x''] \<and> g_properties g = Some [])"
proof -
  have "mcpSchemaTypeToGeminiSchemaType (Some (TypeArray [TypeNull, TypeName ''object''])) = Some OBJECT"
    by simp
  with required_copied_unfiltered [of None None None None None "Some (TypeArray [TypeNull, TypeName ''object''])" "''c''"
       None None "Some [(''x'', BoolSchema True)]" None "Some [''x'']"]
  obtain g where g: "translateProperty ''c''
            (ObjSchema (Some (TypeArray [TypeNull, TypeName ''object''])) None None
               (Some [(''x'', BoolSchema True)]) None (Some [''x''])) = Some g"
     and r: "g_required g = Some [''x'']"
    by auto
  from g have "g_properties g = Some []"
    by (auto simp: Let_def description_or_def)
  with g r show ?thesis by blast
qed

text \<open>
  Claim C10 as stated fails for a nested object-typed property that has \<^verbatim>\<open>required\<close>
  but no \<^verbatim>\<open>properties\<close>: its \<^verbatim>\<open>required\<close> list is not copied.
\<close>

theorem nested_required_counterexample:
  "translateMcpSchemaToGeminiSchema
       (ObjSchema (Some (TypeName ''object'')) None None
          (Some [(''p'', ObjSchema (Some (TypeName ''object'')) None None None None
                           (Some [''a'']))])
          None None)
     = Some (GSchema OBJECT None None None
              (Some [(''p'', GSchema OBJECT (Some ''Parameter p'') None None None None)])
              (Some [])) \<and>
   g_required (GSchema OBJECT (Some ''Parameter p'') None None None None) \<noteq> Some [''a'']"
  by (simp add: description_or_def)

subsection \<open>Tool registry\<close>

text \<open>
  Claim C5. The function name of a declaration is \<open>geminiFunctionName\<close> of the server
  name and the tool name alone: both names sanitized character by character (every
  character outside \<^verbatim>\<open>[A-Za-z0-9_]\<close> becomes \<^verbatim>\<open>_\<close>), joined by \<^verbatim>\<open>_\<close>, cut to 63
  characters. The result has at most 63 characters, is not empty, and consists of
  characters of \<^verbatim>\<open>[A-Za-z0-9_]\<close> only.
\<close>

theorem function_name_derivation:
  "(mcpToolToGeminiFunction mcpTool serverName = Some decl \<longrightarrow>
      fd_name decl = geminiFunctionName serverName (tool_name mcpTool)) \<and>
   geminiFunctionName serverName toolName
     = take 63 (sanitize serverName @ ''_'' @ sanitize toolName) \<and>
   length (sanitize s) = length s \<and>
   (\<forall>i < length s. sanitize s ! i = (if identifier_char (s ! i) then s ! i else CHR ''_'')) \<and>
   length (geminiFunctionName serverName toolName) \<le> 63 \<and>
   geminiFunctionName serverName toolName \<noteq> [] \<and>
   (\<forall>c \<in> set (geminiFunctionName serverName toolName). identifier_char c)"
proof (intro conjI)
  show "mcpToolToGeminiFunction mcpTool serverName = Some decl \<longrightarrow>
      fd_name decl = geminiFunctionName serverName (tool_name mcpTool)"
    by (simp add: mcpToolToGeminiFunction_name)
  show "geminiFunctionName serverName toolName
     = take 63 (sanitize serverName @ ''_'' @ sanitize toolName)"
    by (rule geminiFunctionName_take)
  show "length (sanitize s) = length s"
    by (simp add: sanitize_def)
  show "\<forall>i < length s. sanitize s ! i = (if identifier_char (s ! i) then s ! i else CHR ''_'')"
    by (simp add: sanitize_def)
  show "length (geminiFunctionName serverName toolName) \<le> 63"
    by (simp add: geminiFunctionName_take)
  show "geminiFunctionName serverName toolName \<noteq> []"
    by (simp add: geminiFunctionName_take)
  show "\<forall>c \<in> set (geminiFunctionName serverName toolName). identifier_char c"
    using geminiFunctionName_chars by blast
qed

theorem function_name_derivation_witness:
  "(\<exists>decl. mcpToolToGeminiFunction example_tool ''my server'' = Some decl \<and>
      fd_name decl = ''my_server_do_it_'') \<and>
   geminiFunctionName ''my server'' ''do-it!'' = ''my_server_do_it_'' \<and>
   sanitize ''my server'' ! 2 = CHR ''_'' \<and>
   sanitize ''my server'' ! 3 = CHR ''s'' \<and>
   list_all identifier_char (geminiFunctionName ''my server'' ''do-it!'')"
proof -
  obtain decl where h: "mcpToolToGeminiFunction example_tool ''my server'' = Some decl"
    using example_declaration by blast
  note t = function_name_derivation
    [of example_tool "''my server''" decl "''do-it!''" "''my server''"]
  have "tool_name example_tool = ''do-it!''"
    by (simp add: example_tool_def)
  with t h have n: "fd_name decl = ''my_server_do_it_''"
    by (simp only: example_function_name)
  from t have p: "\<forall>i < length ''my server''. sanitize ''my server'' ! i
      = (if identifier_char (''my server'' ! i) then ''my server'' ! i else CHR ''_'')"
    by blast
  have "(2::nat) < length ''my server''" "(3::nat) < length ''my server''"
    by simp_all
  with p have "sanitize ''my server'' ! 2
      = (if identifier_char (''my server'' ! 2) then ''my server'' ! 2 else CHR ''_'')"
    and "sanitize ''my server'' ! 3
      = (if identifier_char (''my server'' ! 3) then ''my server'' ! 3 else CHR ''_'')"
    by blast+
  then have s: "sanitize ''my server'' ! 2 = CHR ''_''" "sanitize ''my server'' ! 3 = CHR ''s''"
    by (simp_all add: identifier_char_def)
  from t have "\<forall>c \<in> set (geminiFunctionName ''my server'' ''do-it!''). identifier_char c"
    by blast
  then have "list_all identifier_char (geminiFunctionName ''my server'' ''do-it!'')"
    by (simp only: list_all_iff)
  with h n s show ?thesis
    using example_function_name by blast
qed

text \<open>
  Claim C3. A tool whose \<^verbatim>\<open>inputSchema\<close> is absent, boolean, or not of type
  \<^verbatim>\<open>"object"\<close> gets no function declaration, and the registry's loop over the listed
  tools runs as if the tool were not in the list: no mapping is created for it.
\<close>

theorem rejected_tool_is_skipped:
  "inputSchema_rejected mcpTool \<Longrightarrow>
     mcpToolToGeminiFunction mcpTool serverName = None \<and>
     mapTools serverConfig (mcpTool # rest) st = mapTools serverConfig rest st \<and>
     mapTools serverConfig (before @ mcpTool # rest) st = mapTools serverConfig (before @ rest) st"
proof (intro conjI)
  assume r: "inputSchema_rejected mcpTool"
  then show "mcpToolToGeminiFunction mcpTool serverName = None"
    by (rule mapTools_rejected_step)
  from r show "mapTools serverConfig (mcpTool # rest) st = mapTools serverConfig rest st"
    by (simp add: mapTools_rejected_step)
  from r have "filter (\<lambda>t. \<not> inputSchema_rejected t) (before @ mcpTool # rest)
      = filter (\<lambda>t. \<not> inputSchema_rejected t) (before @ rest)"
    by simp
  then show "mapTools serverConfig (before @ mcpTool # rest) st = mapTools serverConfig (before @ rest) st"
    using mapTools_filter by metis
qed

theorem rejected_tool_is_skipped_witness:
  "inputSchema_rejected flag_tool \<and> inputSchema_rejected bare_tool \<and> inputSchema_rejected text_tool \<and>
   mcpToolToGeminiFunction flag_tool ''srv'' = None \<and>
   mcpToolToGeminiFunction bare_tool ''srv'' = None \<and>
   mcpToolToGeminiFunction text_tool ''srv'' = None \<and>
   mapTools \<lparr> cfg_name = ''srv'', cfg_url = ''http://srv'' \<rparr> [example_tool, flag_tool]
       \<lparr> currentSessionTools = [], history = [] \<rparr>
     = mapTools \<lparr> cfg_name = ''srv'', cfg_url = ''http://srv'' \<rparr> [example_tool]
       \<lparr> currentSessionTools = [], history = [] \<rparr>"
proof -
  let ?cfg = "\<lparr> cfg_name = ''srv'', cfg_url = ''http://srv'' \<rparr>"
  let ?st = "\<lparr> currentSessionTools = [], history = [] \<rparr>"
  note r = rejected_examples
  from rejected_tool_is_skipped [where mcpTool = flag_tool and serverName = "''srv''" and serverConfig = ?cfg
             and before = "[example_tool]" and rest = "[]" and st = ?st, OF r(1)]
  have 1: "mcpToolToGeminiFunction flag_tool ''srv'' = None"
    and 2: "mapTools ?cfg [example_tool, flag_tool] ?st = mapTools ?cfg [example_tool] ?st"
    by simp_all
  from rejected_tool_is_skipped [where mcpTool = bare_tool and serverName = "''srv''", OF r(2)]
  have 3: "mcpToolToGeminiFunction bare_tool ''srv'' = None"
    by blast
  from rejected_tool_is_skipped [where mcpTool = text_tool and serverName = "''srv''", OF r(3)]
  have 4: "mcpToolToGeminiFunction text_tool ''srv'' = None"
    by blast
  from r 1 2 3 4 show ?thesis
    by blast
qed

text \<open>
  Claim C9. The result of a discovery pass does not depend on the table it finds; the
  table it leaves holds exactly the mappings built in this pass (\<open>pass_mappings\<close>), each
  of them from a tool listed by one of the pass's servers; with no server, or with
  servers that all fail, the table is left empty.
\<close>

theorem discovery_replaces_table:
  "discoverAndMapAllMcpTools w servers (st\<lparr> currentSessionTools := previous \<rparr>)
     = discoverAndMapAllMcpTools w servers st \<and>
   (\<forall>m \<in> set (currentSessionTools (snd (discoverAndMapAllMcpTools w servers st))).
      \<exists>serverConfig \<in> set servers.
        valid_url w (cfg_url serverConfig) \<and>
        mcpServerName m = cfg_name serverConfig \<and> mcpServerUrl m = cfg_url serverConfig \<and>
        (\<exists>h ts. client_listTools w h (cfg_url serverConfig) = Inr (Some ts) \<and>
           (\<exists>t \<in> set ts. mcpToolName m = tool_name t \<and>
              mcpToolToGeminiFunction t (cfg_name serverConfig)
                = Some (geminiFunctionDeclaration m)))) \<and>
   currentSessionTools (snd (discoverAndMapAllMcpTools w servers st))
     = pass_mappings w servers (history st) \<and>
   discoverAndMapAllMcpTools w [] st = (Inr (), st\<lparr> currentSessionTools := [] \<rparr>) \<and>
   ((\<forall>serverConfig \<in> set servers.
        \<not> valid_url w (cfg_url serverConfig) \<or>
        (\<forall>h. client_connect w h (cfg_url serverConfig) \<noteq> None) \<or>
        (\<forall>h. isl (client_listTools w h (cfg_url serverConfig)))) \<longrightarrow>
      currentSessionTools (snd (discoverAndMapAllMcpTools w servers st)) = [])"
proof (intro conjI)
  show "discoverAndMapAllMcpTools w servers (st\<lparr> currentSessionTools := previous \<rparr>)
     = discoverAndMapAllMcpTools w servers st"
    by (simp add: discoverAndMapAllMcpTools_def)
  show "\<forall>m \<in> set (currentSessionTools (snd (discoverAndMapAllMcpTools w servers st))).
      \<exists>serverConfig \<in> set servers.
        valid_url w (cfg_url serverConfig) \<and>
        mcpServerName m = cfg_name serverConfig \<and> mcpServerUrl m = cfg_url serverConfig \<and>
        (\<exists>h ts. client_listTools w h (cfg_url serverConfig) = Inr (Some ts) \<and>
           (\<exists>t \<in> set ts. mcpToolName m = tool_name t \<and>
              mcpToolToGeminiFunction t (cfg_name serverConfig)
                = Some (geminiFunctionDeclaration m)))"
    using discoverLoop_entries [of _ w servers "st\<lparr> currentSessionTools := [] \<rparr>"]
    by (auto simp: discoverAndMapAllMcpTools_def)
  show "currentSessionTools (snd (discoverAndMapAllMcpTools w servers st))
     = pass_mappings w servers (history st)"
    using discoverLoop_pass_mappings [of w servers "st\<lparr> currentSessionTools := [] \<rparr>"]
    by (simp add: discoverAndMapAllMcpTools_def)
  show "discoverAndMapAllMcpTools w [] st = (Inr (), st\<lparr> currentSessionTools := [] \<rparr>)"
    by (simp add: discoverAndMapAllMcpTools_def)
  show "(\<forall>serverConfig \<in> set servers.
        \<not> valid_url w (cfg_url serverConfig) \<or>
        (\<forall>h. client_connect w h (cfg_url serverConfig) \<noteq> None) \<or>
        (\<forall>h. isl (client_listTools w h (cfg_url serverConfig)))) \<longrightarrow>
      currentSessionTools (snd (discoverAndMapAllMcpTools w servers st)) = []"
    using discoverLoop_failing [of servers w "st\<lparr> currentSessionTools := [] \<rparr>"]
    by (simp add: discoverAndMapAllMcpTools_def)
qed

theorem discovery_replaces_table_witness:
  "currentSessionTools (snd (discoverAndMapAllMcpTools example_world
       [\<lparr> cfg_name = ''down'', cfg_url = ''http://down'' \<rparr>]
       \<lparr> currentSessionTools = [stale_mapping], history = [] \<rparr>)) = [] \<and>
   discoverAndMapAllMcpTools example_world []
       \<lparr> currentSessionTools = [stale_mapping], history = [] \<rparr>
     = (Inr (), \<lparr> currentSessionTools = [], history = [] \<rparr>) \<and>
   currentSessionTools (snd (discoverAndMapAllMcpTools example_world example_servers
       \<lparr> currentSessionTools = [stale_mapping], history = [] \<rparr>)) = [example_mapping] \<and>
   pass_mappings example_world example_servers [] = [example_mapping] \<and>
   (\<exists>serverConfig \<in> set example_servers.
      mcpServerName example_mapping = cfg_name serverConfig \<and>
      mcpServerUrl example_mapping = cfg_url serverConfig)"
proof -
  let ?st = "\<lparr> currentSessionTools = [stale_mapping], history = [] \<rparr>"
  let ?down = "[\<lparr> cfg_name = ''down'', cfg_url = ''http://down'' \<rparr>]"
  have "\<forall>serverConfig \<in> set ?down.
          \<not> valid_url example_world (cfg_url serverConfig) \<or>
          (\<forall>h. client_connect example_world h (cfg_url serverConfig) \<noteq> None) \<or>
          (\<forall>h. isl (client_listTools example_world h (cfg_url serverConfig)))"
    by (simp add: example_world_def)
  with discovery_replaces_table [where w = example_world and st = ?st and servers = ?down]
  have 1: "currentSessionTools (snd (discoverAndMapAllMcpTools example_world ?down ?st)) = []"
    by blast
  from discovery_replaces_table [where w = example_world and st = ?st and servers = "[]"]
  have 2: "discoverAndMapAllMcpTools example_world [] ?st
     = (Inr (), \<lparr> currentSessionTools = [], history = [] \<rparr>)"
    by simp
  have 3: "currentSessionTools (snd (discoverAndMapAllMcpTools example_world example_servers ?st))
     = [example_mapping]"
    by (simp add: example_discovery)
  note t = discovery_replaces_table [where w = example_world and st = ?st
      and servers = example_servers]
  from t have "currentSessionTools (snd (discoverAndMapAllMcpTools example_world example_servers ?st))
     = pass_mappings example_world example_servers (history ?st)"
    by blast
  with 3 have 4: "pass_mappings example_world example_servers [] = [example_mapping]"
    by simp
  from t have "\<forall>m \<in> set (currentSessionTools
        (snd (discoverAndMapAllMcpTools example_world example_servers ?st))).
      \<exists>serverConfig \<in> set example_servers.
        mcpServerName m = cfg_name serverConfig \<and> mcpServerUrl m = cfg_url serverConfig"
    by blast
  with 3 have 5: "\<exists>serverConfig \<in> set example_servers.
      mcpServerName example_mapping = cfg_name serverConfig \<and>
      mcpServerUrl example_mapping = cfg_url serverConfig"
    by simp
  from 1 2 3 4 5 show ?thesis by blast
qed

subsection \<open>Remote tool client\<close>

text \<open>
  Claim C2. \<^verbatim>\<open>callMcpTool\<close> on a client that is not connected (as a fresh client is, and
  a client whose \<^verbatim>\<open>connect\<close> failed) raises and touches nothing. On a connected client
  whose remote call fails it returns, without raising, the result
  \<^verbatim>\<open>{toolCallId: "error-" + Date.now(), isError: true, content: [text]}\<close> with the error's
  message in the text.
\<close>

theorem callMcpTool_error_channels:
  "(\<not> connected this \<longrightarrow>
      callMcpTool w this toolName arguments st
        = (Inl (Error ''Not connected to MCP server. Cannot call tool.''), st)) \<and>
   (new_GenericMcpClient w url = Inr fresh \<longrightarrow>
      callMcpTool w fresh toolName arguments st
        = (Inl (Error ''Not connected to MCP server. Cannot call tool.''), st)) \<and>
   (connect w this st = (Inl e, refused, st') \<longrightarrow>
      callMcpTool w refused toolName arguments st'
        = (Inl (Error ''Not connected to MCP server. Cannot call tool.''), st')) \<and>
   (connected this \<and>
    client_callTool w (history st) (serverUrl this) toolName arguments = Inl error \<longrightarrow>
      callMcpTool w this toolName arguments st
        = (Inr \<lparr> toolCallId =
                    Some (''error-'' @ decimal (date_now w
                       (history st @ [CallToolEvent (serverUrl this) toolName arguments]))),
                  isError = Some True,
                  content = [TextContent (''Error calling MCP tool '' @ toolName @ '': ''
                                            @ message error)] \<rparr>,
           emit (CallToolEvent (serverUrl this) toolName arguments) st))"
  by (auto simp: callMcpTool_def new_GenericMcpClient_def connect_def emit_def Let_def
      split: if_splits option.splits)

theorem callMcpTool_error_channels_witness:
  "callMcpTool example_world \<lparr> serverUrl = ''http://srv'', connected = False \<rparr> ''add'' (JObj [])
       \<lparr> currentSessionTools = [], history = [] \<rparr>
     = (Inl (Error ''Not connected to MCP server. Cannot call tool.''),
        \<lparr> currentSessionTools = [], history = [] \<rparr>) \<and>
   (\<exists>fresh. new_GenericMcpClient example_world ''http://srv'' = Inr fresh \<and>
      callMcpTool example_world fresh ''add'' (JObj []) \<lparr> currentSessionTools = [], history = [] \<rparr>
        = (Inl (Error ''Not connected to MCP server. Cannot call tool.''),
           \<lparr> currentSessionTools = [], history = [] \<rparr>)) \<and>
   (\<exists>refused st'.
      connect example_world \<lparr> serverUrl = ''http://down'', connected = False \<rparr>
          \<lparr> currentSessionTools = [], history = [] \<rparr>
        = (Inl (Error ''ECONNREFUSED''), refused, st') \<and>
      callMcpTool example_world refused ''add'' (JObj []) st'
        = (Inl (Error ''Not connected to MCP server. Cannot call tool.''), st')) \<and>
   callMcpTool example_world \<lparr> serverUrl = ''http://srv'', connected = True \<rparr> ''add'' (JObj [])
       \<lparr> currentSessionTools = [], history = [] \<rparr>
     = (Inr \<lparr> toolCallId = Some ''error-1700'', isError = Some True,
               content = [TextContent ''Error calling MCP tool add: timeout''] \<rparr>,
        \<lparr> currentSessionTools = [],
          history = [CallToolEvent ''http://srv'' ''add'' (JObj [])] \<rparr>)"
proof -
  let ?st = "\<lparr> currentSessionTools = [], history = [] \<rparr>"
  let ?off = "\<lparr> serverUrl = ''http://srv'', connected = False \<rparr>"
  let ?on = "\<lparr> serverUrl = ''http://srv'', connected = True \<rparr>"
  let ?down = "\<lparr> serverUrl = ''http://down'', connected = False \<rparr>"
  let ?st' = "\<lparr> currentSessionTools = [], history = [ConnectEvent ''http://down''] \<rparr>"
  have d: "decimal 1700 = ''1700''"
    by (simp add: decimal_digit decimal_step digit_def)
  have a: "\<not> connected ?off"
    by simp
  have f: "new_GenericMcpClient example_world ''http://srv'' = Inr ?off"
    by (simp add: new_GenericMcpClient_def example_world_def)
  have c: "connect example_world ?down ?st = (Inl (Error ''ECONNREFUSED''), ?down, ?st')"
    by (simp add: connect_def example_world_def emit_def)
  have b: "connected ?on \<and>
    client_callTool example_world (history ?st) (serverUrl ?on) ''add'' (JObj [])
      = Inl (Error ''timeout'')"
    by (simp add: example_world_def)
  note t = callMcpTool_error_channels [where w = example_world and toolName = "''add''" and arguments = "JObj []"]
  from a t [where this = ?off and st = ?st]
  have 1: "callMcpTool example_world ?off ''add'' (JObj []) ?st
     = (Inl (Error ''Not connected to MCP server. Cannot call tool.''), ?st)"
    by blast
  from f t [where url = "''http://srv''" and fresh = ?off and st = ?st]
  have 2: "\<exists>fresh. new_GenericMcpClient example_world ''http://srv'' = Inr fresh \<and>
      callMcpTool example_world fresh ''add'' (JObj []) ?st
        = (Inl (Error ''Not connected to MCP server. Cannot call tool.''), ?st)"
    by blast
  from c t [where this = ?down and st = ?st and e = "Error ''ECONNREFUSED''"
      and refused = ?down and st' = ?st']
  have 3: "\<exists>refused st'. connect example_world ?down ?st
        = (Inl (Error ''ECONNREFUSED''), refused, st') \<and>
      callMcpTool example_world refused ''add'' (JObj []) st'
        = (Inl (Error ''Not connected to MCP server. Cannot call tool.''), st')"
    by blast
  from b t [where this = ?on and st = ?st and error = "Error ''timeout''"]
  have "callMcpTool example_world ?on ''add'' (JObj []) ?st
     = (Inr \<lparr> toolCallId =
                   Some (''error-'' @ decimal (date_now example_world
                      (history ?st @ [CallToolEvent (serverUrl ?on) ''add'' (JObj [])]))),
                 isError = Some True,
                 content = [TextContent (''Error calling MCP tool '' @ ''add'' @ '': ''
                                           @ message (Error ''timeout''))] \<rparr>,
        emit (CallToolEvent (serverUrl ?on) ''add'' (JObj [])) ?st)"
    by blast
  then have 4: "callMcpTool example_world ?on ''add'' (JObj []) ?st
     = (Inr \<lparr> toolCallId = Some ''error-1700'', isError = Some True,
               content = [TextContent ''Error calling MCP tool add: timeout''] \<rparr>,
        \<lparr> currentSessionTools = [],
          history = [CallToolEvent ''http://srv'' ''add'' (JObj [])] \<rparr>)"
    by (simp add: example_world_def d emit_def)
  from 1 2 3 4 show ?thesis by blast
qed

text \<open>
  Claim C8. \<^verbatim>\<open>listMcpTools\<close> returns \<^verbatim>\<open>null\<close> exactly when the client is not connected
  or the listing fails. Not connected, it returns at once and leaves the history of
  interactions as it is. Connected to a server that reports no tools it returns the
  empty list.
\<close>

theorem listMcpTools_null_iff_not_listed:
  "(fst (listMcpTools w this st) = None \<longleftrightarrow>
      \<not> connected this \<or> isl (client_listTools w (history st) (serverUrl this))) \<and>
   (\<not> connected this \<longrightarrow> listMcpTools w this st = (None, st)) \<and>
   (connected this \<and> client_listTools w (history st) (serverUrl this) = Inl error \<longrightarrow>
      fst (listMcpTools w this st) = None) \<and>
   (connected this \<and> client_listTools w (history st) (serverUrl this) = Inr (Some []) \<longrightarrow>
      fst (listMcpTools w this st) = Some []) \<and>
   (connected this \<and> client_listTools w (history st) (serverUrl this) = Inr (Some mcpTools) \<longrightarrow>
      fst (listMcpTools w this st) = Some mcpTools)"
  by (auto simp: listMcpTools_def split: sum.splits)

theorem listMcpTools_null_iff_not_listed_witness:
  "listMcpTools example_world \<lparr> serverUrl = ''http://none'', connected = False \<rparr>
       \<lparr> currentSessionTools = [], history = [] \<rparr>
     = (None, \<lparr> currentSessionTools = [], history = [] \<rparr>) \<and>
   fst (listMcpTools example_world \<lparr> serverUrl = ''http://other'', connected = True \<rparr>
       \<lparr> currentSessionTools = [], history = [] \<rparr>) = None \<and>
   fst (listMcpTools example_world \<lparr> serverUrl = ''http://none'', connected = True \<rparr>
       \<lparr> currentSessionTools = [], history = [] \<rparr>) = Some [] \<and>
   fst (listMcpTools example_world \<lparr> serverUrl = ''http://srv'', connected = True \<rparr>
       \<lparr> currentSessionTools = [], history = [] \<rparr>) = Some [example_tool, flag_tool]"
proof -
  let ?st = "\<lparr> currentSessionTools = [], history = [] \<rparr>"
  note t = listMcpTools_null_iff_not_listed [where w = example_world and st = ?st]
  have 1: "listMcpTools example_world \<lparr> serverUrl = ''http://none'', connected = False \<rparr> ?st = (None, ?st)"
    using t [where this = "\<lparr> serverUrl = ''http://none'', connected = False \<rparr>"]
    by simp
  have "client_listTools example_world (history ?st)
          (serverUrl \<lparr> serverUrl = ''http://other'', connected = True \<rparr>) = Inl (Error ''list failed'')"
    by (simp add: example_world_def)
  then have 2: "fst (listMcpTools example_world \<lparr> serverUrl = ''http://other'', connected = True \<rparr> ?st) = None"
    using t [where this = "\<lparr> serverUrl = ''http://other'', connected = True \<rparr>"
        and error = "Error ''list failed''"]
    by simp
  have "client_listTools example_world (history ?st)
          (serverUrl \<lparr> serverUrl = ''http://none'', connected = True \<rparr>) = Inr (Some [])"
    by (simp add: example_world_def)
  then have 3: "fst (listMcpTools example_world \<lparr> serverUrl = ''http://none'', connected = True \<rparr> ?st) = Some []"
    using t [where this = "\<lparr> serverUrl = ''http://none'', connected = True \<rparr>"]
    by simp
  have "client_listTools example_world (history ?st)
          (serverUrl \<lparr> serverUrl = ''http://srv'', connected = True \<rparr>)
      = Inr (Some [example_tool, flag_tool])"
    by (simp add: example_world_def)
  then have 4: "fst (listMcpTools example_world \<lparr> serverUrl = ''http://srv'', connected = True \<rparr> ?st)
      = Some [example_tool, flag_tool]"
    using t [where this = "\<lparr> serverUrl = ''http://srv'', connected = True \<rparr>"
        and mcpTools = "[example_tool, flag_tool]"]
    by simp
  from 1 2 3 4 show ?thesis by blast
qed

subsection \<open>Dispatch loop\<close>

text \<open>
  Claim C6. A requested call whose name is in no mapping does not raise: the part
  \<^verbatim>\<open>{functionResponse: {name, response: {error: ...}}}\<close> is appended for it, nothing
  else changes, and the loop goes on with the remaining calls. With a table left by
  discovery the whole round returns one part per requested call, with that part at the
  position of the call.
\<close>

theorem unregistered_call_error_response:
  assumes "findDynamicallyMappedTool st (call_name call) = None"
  shows "executeCall w call st
       = (Inr (FunctionResponsePart (call_name call)
                 (ErrorObject (''Function '' @ call_name call @ '' is not implemented or mapped.''))),
          st) \<and>
     executeCalls w (call # rest) toolResponses st
       = executeCalls w rest
           (toolResponses @
              [FunctionResponsePart (call_name call)
                 (ErrorObject (''Function '' @ call_name call @ '' is not implemented or mapped.''))])
           st \<and>
     (currentSessionTools st
        = currentSessionTools (snd (discoverAndMapAllMcpTools w servers initial)) \<longrightarrow>
      (\<exists>ps st'. executeCalls w (before @ call # rest) [] st = (Inr ps, st') \<and>
         length ps = length before + 1 + length rest \<and>
         ps ! length before
           = FunctionResponsePart (call_name call)
               (ErrorObject (''Function '' @ call_name call @ '' is not implemented or mapped.''))))"
proof (intro conjI impI)
  from assms show "executeCall w call st
       = (Inr (FunctionResponsePart (call_name call)
                 (ErrorObject (''Function '' @ call_name call @ '' is not implemented or mapped.''))),
          st)"
    by (simp add: executeCall_def unmapped_response_def)
  from assms show "executeCalls w (call # rest) toolResponses st
       = executeCalls w rest
           (toolResponses @
              [FunctionResponsePart (call_name call)
                 (ErrorObject (''Function '' @ call_name call @ '' is not implemented or mapped.''))])
           st"
    by (simp add: executeCall_def unmapped_response_def)
  assume "currentSessionTools st
        = currentSessionTools (snd (discoverAndMapAllMcpTools w servers initial))"
  then have "\<forall>m \<in> set (currentSessionTools st). valid_url w (mcpServerUrl m)"
    using discovered_urls_valid by simp
  from unmapped_round [OF this assms, of before rest]
  show "\<exists>ps st'. executeCalls w (before @ call # rest) [] st = (Inr ps, st') \<and>
         length ps = length before + 1 + length rest \<and>
         ps ! length before
           = FunctionResponsePart (call_name call)
               (ErrorObject (''Function '' @ call_name call @ '' is not implemented or mapped.''))"
    by (simp add: unmapped_response_def)
qed

theorem unregistered_call_error_response_witness:
  "findDynamicallyMappedTool \<lparr> currentSessionTools = [example_mapping], history = [] \<rparr> ''nope'' = None \<and>
   executeCalls example_world [\<lparr> call_name = ''nope'', call_args = JObj [] \<rparr>] []
       \<lparr> currentSessionTools = [example_mapping], history = [] \<rparr>
     = (Inr [FunctionResponsePart ''nope''
               (ErrorObject ''Function nope is not implemented or mapped.'')],
        \<lparr> currentSessionTools = [example_mapping], history = [] \<rparr>) \<and>
   (\<exists>ps st'. executeCalls example_world
        [\<lparr> call_name = ''srv_do_it_'', call_args = JObj [] \<rparr>,
         \<lparr> call_name = ''nope'', call_args = JObj [] \<rparr>] []
        \<lparr> currentSessionTools = [example_mapping], history = [] \<rparr> = (Inr ps, st') \<and>
      length ps = 2 \<and>
      ps ! 1 = FunctionResponsePart ''nope''
                 (ErrorObject ''Function nope is not implemented or mapped.''))"
proof -
  let ?st = "\<lparr> currentSessionTools = [example_mapping], history = [] \<rparr>"
  let ?call = "\<lparr> call_name = ''nope'', call_args = JObj [] \<rparr>"
  let ?first = "\<lparr> call_name = ''srv_do_it_'', call_args = JObj [] \<rparr>"
  have h: "findDynamicallyMappedTool ?st (call_name ?call) = None"
    by (simp add: findDynamicallyMappedTool_def example_mapping_def)
  have t: "currentSessionTools ?st
     = currentSessionTools (snd (discoverAndMapAllMcpTools example_world example_servers ?st))"
    by (simp add: example_discovery)
  note c = unregistered_call_error_response [where w = example_world and st = ?st and call = ?call and rest = "[]"
      and toolResponses = "[]" and servers = example_servers and initial = ?st
      and before = "[?first]", OF h]
  from c have "executeCalls example_world (?call # []) [] ?st
     = executeCalls example_world []
         ([] @ [FunctionResponsePart (call_name ?call)
                  (ErrorObject (''Function '' @ call_name ?call @ '' is not implemented or mapped.''))])
         ?st"
    by blast
  then have 1: "executeCalls example_world [?call] [] ?st
     = (Inr [FunctionResponsePart ''nope''
               (ErrorObject ''Function nope is not implemented or mapped.'')], ?st)"
    by (simp del: executeCalls.simps(2))
  from c t have "\<exists>ps st'. executeCalls example_world ([?first] @ ?call # []) [] ?st = (Inr ps, st') \<and>
      length ps = length [?first] + 1 + length ([] :: function_call list) \<and>
      ps ! length [?first]
        = FunctionResponsePart (call_name ?call)
            (ErrorObject (''Function '' @ call_name ?call @ '' is not implemented or mapped.''))"
    by blast
  then have 2: "\<exists>ps st'. executeCalls example_world [?first, ?call] [] ?st = (Inr ps, st') \<and>
      length ps = 2 \<and>
      ps ! 1 = FunctionResponsePart ''nope''
                 (ErrorObject ''Function nope is not implemented or mapped.'')"
    by (simp del: executeCalls.simps(2) add: numeral_2_eq_2)
  from h 1 2 show ?thesis
    by (simp del: executeCalls.simps(2))
qed

text \<open>
  Claim C4. With a table left by discovery and a model that asks for at least one
  function call in every response, \<^verbatim>\<open>sendMessageToGemini\<close> returns the exhausted-rounds
  message after exactly five model calls; it neither raises nor runs on.
\<close>

theorem dispatch_loop_exhausts_rounds:
  assumes "currentSessionTools st
             = currentSessionTools (snd (discoverAndMapAllMcpTools w servers initial))"
    and "\<forall>h m. \<exists>response call calls.
             chat_sendMessage w h m = SendOk (Some response) \<and>
             response_functionCalls response = Some (call # calls)"
  shows "\<exists>st'. sendMessageToGemini w currentMessageForGemini st
                 = (Inr ''I tried several times, but I'm having trouble completing your request with tools.'', st') \<and>
               sends (history st') = sends (history st) + 5 \<and>
               currentSessionTools st' = currentSessionTools st"
proof -
  have "\<forall>m \<in> set (currentSessionTools st). valid_url w (mcpServerUrl m)"
    using assms(1) discovered_urls_valid by simp
  from dispatchLoop_exhausts [OF assms(2) _ _ this, of 0 maxAttempts currentMessageForGemini]
  show ?thesis
    by (simp add: sendMessageToGemini_def maxAttempts_def exhausted_message_def)
qed

theorem dispatch_loop_exhausts_rounds_witness:
  "\<exists>st'. sendMessageToGemini example_world (TextMessage ''hello'')
            (snd (discoverAndMapAllMcpTools example_world example_servers
                    \<lparr> currentSessionTools = [], history = [] \<rparr>))
          = (Inr ''I tried several times, but I'm having trouble completing your request with tools.'', st') \<and>
         sends (history st') = 5 \<and>
         currentSessionTools st' = [example_mapping]"
proof -
  let ?init = "\<lparr> currentSessionTools = [], history = [] \<rparr>"
  let ?st = "snd (discoverAndMapAllMcpTools example_world example_servers ?init)"
  have a: "currentSessionTools ?st
     = currentSessionTools (snd (discoverAndMapAllMcpTools example_world example_servers ?init))"
    by simp
  have b: "\<forall>h m. \<exists>response call calls.
             chat_sendMessage example_world h m = SendOk (Some response) \<and>
             response_functionCalls response = Some (call # calls)"
    by (simp add: example_world_def)
  have d: "?st = \<lparr> currentSessionTools = [example_mapping],
          history = [ConnectEvent ''http://down'',
                     ConnectEvent ''http://srv'', ListToolsEvent ''http://srv'', CloseEvent ''http://srv'',
                     ConnectEvent ''http://none'', ListToolsEvent ''http://none'', CloseEvent ''http://none''] \<rparr>"
    by (simp add: example_discovery)
  from dispatch_loop_exhausts_rounds [where w = example_world and servers = example_servers and initial = ?init and st = ?st
             and currentMessageForGemini = "TextMessage ''hello''", OF a b]
  show ?thesis
    unfolding d by (simp add: sends_def)
qed

end
